theory Spec2Isabelle
  imports Main
begin

section \<open>Scope\<close>

text \<open>
  The service is a set of Express handlers over three Sequelize models stored in SQLite.
  The source holds two versions of the service file: one with the export, import and
  reset routes, whose \<open>initializeDatabase\<close> synchronises with \<open>force: true\<close>, and one
  without them, whose \<open>initializeDatabase\<close> synchronises with \<open>alter: true\<close>; the
  other handlers are the same in both.

  A handler is a function from the store to a response and the new store.  The calls to
  the mapping layer (\<open>create\<close>, \<open>bulkCreate\<close>, \<open>update\<close>, \<open>destroy\<close>, \<open>findAll\<close>, ...)
  are functions on the rows of the tables; a call that throws returns \<open>Inl\<close> of the
  error, and the handler's \<open>catch\<close> turns it into the 500 response.  The errors that are
  modelled are those the request itself can cause: a failed validation, a constraint of
  the store (primary key, NOT NULL, foreign key), a key outside the 64-bit range.  Faults
  of the storage engine (a failing disk, a locked file) are outside the model.

  The connection is opened with the defaults of the mapping layer, which enforces the
  foreign keys the models declare: a row cannot be inserted with a reference to an absent
  row, and a row that is referred to cannot be deleted.
\<close>

section \<open>Request values\<close>

text \<open>
  A property of a JSON request body is absent, \<open>null\<close>, or holds a value.  For an
  insert both \<open>Absent\<close> and \<open>Null\<close> store SQL NULL; for an update \<open>Absent\<close> leaves the
  column alone and \<open>Null\<close> sets it to NULL.
\<close>

datatype 'a field = Absent | Null | Val 'a

fun field_option :: "'a field \<Rightarrow> 'a option" where
  "field_option Absent = None"
| "field_option Null = None"
| "field_option (Val v) = Some v"

text \<open>
  The three top-level keys of an import body are arbitrary JSON values; the handler tests
  them for truthiness only.  \<open>JObj\<close> is an object without a \<open>length\<close> property.
\<close>

datatype 'r json =
    JUndefined | JNull | JBool bool | JNum int | JStr string | JArr "'r list" | JObj

fun truthy :: "'r json \<Rightarrow> bool" where
  "truthy JUndefined = False"
| "truthy JNull = False"
| "truthy (JBool b) = b"
| "truthy (JNum n) = (n \<noteq> 0)"
| "truthy (JStr s) = (s \<noteq> [])"
| "truthy (JArr rs) = True"
| "truthy JObj = True"

section \<open>The three models\<close>

text \<open>
  \<open>sequelize.define("Autor", ...)\<close>, \<open>("Antologia", ...)\<close> and \<open>("Like", ...)\<close>.  The
  primary keys \<open>id\<close> of Antologia and Like are written \<open>antologia_id\<close> and \<open>like_id\<close>,
  and Antologia's foreign key \<open>idautor\<close> is \<open>antologia_idautor\<close>.  Columns declared
  \<open>allowNull: false\<close> hold a value, every other column is nullable.  The timestamp
  columns the mapping layer adds on its own are left out.
\<close>

record autor =
  idautor :: int
  nombre :: string
  biografia :: "string option"
  urlfoto :: "string option"

record antologia =
  antologia_id :: int
  titulo :: string
  antologia_idautor :: "int option"
  contenido :: "string option"
  referencia :: "string option"
  tituloObra :: "string option"
  autorObra :: "string option"

record like =
  like_id :: int
  idantologia :: "int option"
  userId :: "string option"
  userEmail :: "string option"

text \<open>The objects a client sends to create a row (\<open>req.body\<close>, or one element of a batch).\<close>

record autor_values =
  v_idautor :: "int field"
  v_nombre :: "string field"
  v_biografia :: "string field"
  v_urlfoto :: "string field"

record antologia_values =
  v_antologia_id :: "int field"
  v_titulo :: "string field"
  v_antologia_idautor :: "int field"
  v_contenido :: "string field"
  v_referencia :: "string field"
  v_tituloObra :: "string field"
  v_autorObra :: "string field"

record like_values =
  v_like_id :: "int field"
  v_idantologia :: "int field"
  v_userId :: "string field"
  v_userEmail :: "string field"

text \<open>
  The body of a PUT request: the columns it can set.  The row is selected by the route
  parameter; a body that names the primary key as well, to move the row to another key,
  is outside these definitions.
\<close>

record autor_changes =
  c_nombre :: "string field"
  c_biografia :: "string field"
  c_urlfoto :: "string field"

record antologia_changes =
  c_titulo :: "string field"
  c_antologia_idautor :: "int field"
  c_contenido :: "string field"
  c_referencia :: "string field"
  c_tituloObra :: "string field"
  c_autorObra :: "string field"

section \<open>Errors, calls and the store\<close>

text \<open>
  What a handler's \<open>catch\<close> can receive: a \<open>notNull\<close> validation failure of the mapping
  layer; from the store a primary-key conflict of a single insert, a foreign-key
  violation, or another refusal (\<open>datatype mismatch\<close> for a key that is no 64-bit integer,
  \<open>database or disk is full\<close> when the keys of a table are used up); the \<open>TypeError\<close> of
  \<open>bulkCreate\<close> on a value that has a length but is no array; and \<open>new Error(msg)\<close> thrown
  by a handler.
\<close>

datatype error =
    ValidationError string
  | UniqueConstraintError
  | ForeignKeyConstraintError
  | DatabaseError string
  | TypeError string
  | Error string

datatype model = Autor | Antologia | Like

datatype call =
    Sync_force | Sync_alter
  | Count model | Create model | BulkCreate model
  | FindOne model | FindAll model | FindByPk model
  | Update model | DestroyAll model | DestroyWhere model int

text \<open>
  The store: the rows of each table in the order the store lists them, the
  \<open>AUTOINCREMENT\<close> counter of each table (the largest key the table has ever held), and
  the calls made to the mapping layer so far.
\<close>

record store =
  autores :: "autor list"
  antologias :: "antologia list"
  likes :: "like list"
  autor_seq :: int
  antologia_seq :: int
  like_seq :: int
  calls :: "call list"

definition logged :: "call \<Rightarrow> store \<Rightarrow> store" where
  "logged c s = s\<lparr>calls := calls s @ [c]\<rparr>"

section \<open>Keys\<close>

text \<open>
  A key is a 64-bit signed integer in the store and a double in JavaScript.  \<open>js_number\<close>
  is the double a stored key is read as: the key itself up to \<open>2 ^ 53\<close> in magnitude,
  beyond that the nearest multiple of the spacing of the doubles there, ties to the even
  multiple.
\<close>

definition min_rowid :: int where
  "min_rowid = - (2 ^ 63)"

definition max_rowid :: int where
  "max_rowid = 2 ^ 63 - 1"

fun spacing :: "int list \<Rightarrow> int \<Rightarrow> int" where
  "spacing [] m = 1"
| "spacing (p # ps) m = (if p \<le> m then 2 * spacing ps m else 1)"

definition binades :: "int list" where
  "binades =
     [2 ^ 53, 2 ^ 54, 2 ^ 55, 2 ^ 56, 2 ^ 57, 2 ^ 58, 2 ^ 59, 2 ^ 60, 2 ^ 61, 2 ^ 62, 2 ^ 63]"

definition round_even :: "int \<Rightarrow> int \<Rightarrow> int" where
  "round_even u m =
     (let q = m div u; r = m mod u
      in if 2 * r < u \<or> (2 * r = u \<and> even q) then q * u else (q + 1) * u)"

definition js_number :: "int \<Rightarrow> int" where
  "js_number k =
     (if \<bar>k\<bar> \<le> 2 ^ 53 then k else sgn k * round_even (spacing binades \<bar>k\<bar>) \<bar>k\<bar>)"

definition js_autor :: "autor \<Rightarrow> autor" where
  "js_autor a = a\<lparr>idautor := js_number (idautor a)\<rparr>"

definition js_antologia :: "antologia \<Rightarrow> antologia" where
  "js_antologia e =
     e\<lparr>antologia_id := js_number (antologia_id e),
       antologia_idautor := map_option js_number (antologia_idautor e)\<rparr>"

definition js_like :: "like \<Rightarrow> like" where
  "js_like l =
     l\<lparr>like_id := js_number (like_id l), idantologia := map_option js_number (idantologia l)\<rparr>"

text \<open>
  A foreign-key column holds NULL or a key of the parent table.  \<open>referenced ids refs\<close>:
  one of the child columns \<open>refs\<close> holds one of the keys \<open>ids\<close>.
\<close>

definition reference_ok :: "int list \<Rightarrow> int option \<Rightarrow> bool" where
  "reference_ok ids r = (case r of None \<Rightarrow> True | Some k \<Rightarrow> k \<in> set ids)"

definition referenced :: "int list \<Rightarrow> int option list \<Rightarrow> bool" where
  "referenced ids refs =
     list_ex (\<lambda>r. case r of None \<Rightarrow> False | Some k \<Rightarrow> k \<in> set ids) refs"

section \<open>Inserting rows\<close>

text \<open>
  An \<open>INTEGER PRIMARY KEY AUTOINCREMENT\<close> column.  A row inserted without a key gets one
  more than the largest key the table has ever held, and none when that is the largest
  64-bit integer.  A row inserted with a key keeps it; the key must be a 64-bit integer
  and must not be taken.
\<close>

datatype key_outcome = Fresh int | Taken int | Mismatch | Full

definition next_id :: "int \<Rightarrow> int list \<Rightarrow> int" where
  "next_id seq ids = fold max ids seq + 1"

definition insert_key :: "int option \<Rightarrow> int list \<Rightarrow> int \<Rightarrow> key_outcome" where
  "insert_key given ids seq =
     (case given of
        None \<Rightarrow> if max_rowid < next_id seq ids then Full else Fresh (next_id seq ids)
      | Some k \<Rightarrow>
          if k < min_rowid \<or> max_rowid < k then Mismatch
          else if k \<in> set ids then Taken k
          else Fresh k)"

text \<open>
  One \<open>INSERT\<close> of one row: the statement fails on a key that is refused or taken and on
  a foreign key that refers to no row, and then changes nothing.  Otherwise the row is
  appended and the counter follows its key.
\<close>

definition insert_row ::
  "('r \<Rightarrow> int) \<Rightarrow> (int \<Rightarrow> 'r) \<Rightarrow> int option \<Rightarrow> ('r \<Rightarrow> bool) \<Rightarrow> 'r list \<times> int \<Rightarrow>
   error + (int \<times> 'r list \<times> int)" where
  "insert_row pk mk given fk_ok t =
     (case insert_key given (map pk (fst t)) (snd t) of
        Mismatch \<Rightarrow> Inl (DatabaseError ''datatype mismatch'')
      | Full \<Rightarrow> Inl (DatabaseError ''database or disk is full'')
      | Taken k \<Rightarrow> Inl UniqueConstraintError
      | Fresh k \<Rightarrow>
          if fk_ok (mk k) then Inr (k, fst t @ [mk k], max (snd t) k)
          else Inl ForeignKeyConstraintError)"

text \<open>
  The row built from a client's values, still waiting for its key; \<open>None\<close> when a column
  declared \<open>allowNull: false\<close> would be NULL.
\<close>

definition autor_row :: "autor_values \<Rightarrow> (int \<Rightarrow> autor) option" where
  "autor_row v =
     (case field_option (v_nombre v) of
        None \<Rightarrow> None
      | Some n \<Rightarrow>
          Some (\<lambda>k. \<lparr>idautor = k, nombre = n,
                      biografia = field_option (v_biografia v),
                      urlfoto = field_option (v_urlfoto v)\<rparr>))"

definition antologia_row :: "antologia_values \<Rightarrow> (int \<Rightarrow> antologia) option" where
  "antologia_row v =
     (case field_option (v_titulo v) of
        None \<Rightarrow> None
      | Some t \<Rightarrow>
          Some (\<lambda>k. \<lparr>antologia_id = k, titulo = t,
                      antologia_idautor = field_option (v_antologia_idautor v),
                      contenido = field_option (v_contenido v),
                      referencia = field_option (v_referencia v),
                      tituloObra = field_option (v_tituloObra v),
                      autorObra = field_option (v_autorObra v)\<rparr>))"

definition like_row :: "like_values \<Rightarrow> (int \<Rightarrow> like) option" where
  "like_row v =
     Some (\<lambda>k. \<lparr>like_id = k,
                 idantologia = field_option (v_idantologia v),
                 userId = field_option (v_userId v),
                 userEmail = field_option (v_userEmail v)\<rparr>)"

text \<open>
  \<open>Model.create(values)\<close>: the mapping layer validates \<open>allowNull: false\<close> first, then
  inserts.  The created row is returned with the values given; a key the store assigned
  is read back as a JavaScript number.
\<close>

definition create_row ::
  "string \<Rightarrow> ('r \<Rightarrow> int) \<Rightarrow> ('v \<Rightarrow> (int \<Rightarrow> 'r) option) \<Rightarrow> ('v \<Rightarrow> int field) \<Rightarrow>
   ('r \<Rightarrow> bool) \<Rightarrow> 'v \<Rightarrow> 'r list \<times> int \<Rightarrow> error + ('r \<times> 'r list \<times> int)" where
  "create_row msg pk row key fk_ok v t =
     (case row v of
        None \<Rightarrow> Inl (ValidationError msg)
      | Some mk \<Rightarrow>
          (case insert_row pk mk (field_option (key v)) fk_ok t of
             Inl e \<Rightarrow> Inl e
           | Inr (k, t') \<Rightarrow>
               Inr (mk (case field_option (key v) of None \<Rightarrow> js_number k | Some g \<Rightarrow> g), t')))"

definition Autor_create :: "autor_values \<Rightarrow> store \<Rightarrow> (error + autor) \<times> store" where
  "Autor_create v s =
     (case create_row ''notNull Violation: Autor.nombre cannot be null''
             idautor autor_row v_idautor (\<lambda>a. True) v (autores s, autor_seq s) of
        Inl e \<Rightarrow> (Inl e, logged (Create Autor) s)
      | Inr (a, rows, seq) \<Rightarrow>
          (Inr a, logged (Create Autor) (s\<lparr>autores := rows, autor_seq := seq\<rparr>)))"

definition Antologia_create :: "antologia_values \<Rightarrow> store \<Rightarrow> (error + antologia) \<times> store" where
  "Antologia_create v s =
     (case create_row ''notNull Violation: Antologia.titulo cannot be null''
             antologia_id antologia_row v_antologia_id
             (\<lambda>e. reference_ok (map idautor (autores s)) (antologia_idautor e))
             v (antologias s, antologia_seq s) of
        Inl e \<Rightarrow> (Inl e, logged (Create Antologia) s)
      | Inr (a, rows, seq) \<Rightarrow>
          (Inr a, logged (Create Antologia) (s\<lparr>antologias := rows, antologia_seq := seq\<rparr>)))"

definition Like_create :: "like_values \<Rightarrow> store \<Rightarrow> (error + like) \<times> store" where
  "Like_create v s =
     (case create_row [] like_id like_row v_like_id
             (\<lambda>l. reference_ok (map antologia_id (antologias s)) (idantologia l))
             v (likes s, like_seq s) of
        Inl e \<Rightarrow> (Inl e, logged (Create Like) s)
      | Inr (a, rows, seq) \<Rightarrow>
          (Inr a, logged (Create Like) (s\<lparr>likes := rows, like_seq := seq\<rparr>)))"

text \<open>
  \<open>Model.bulkCreate(records, {ignoreDuplicates: true})\<close>.  The mapping layer returns at
  once when \<open>records.length\<close> is falsy and otherwise maps over \<open>records\<close>, which throws
  for a non-empty string.  No validation runs; the rows go to the store in one
  \<open>INSERT OR IGNORE\<close>.  The statement takes the rows in turn: each row gets its key, and
  the counter follows that key; a row whose key is taken or whose NOT NULL column is NULL
  is skipped, the others are appended.  A key that is refused, and at the end of the
  statement a foreign key of an appended row that refers to no row, make the whole
  statement fail, and then it has changed nothing.
\<close>

fun bulk_insert ::
  "('r \<Rightarrow> int) \<Rightarrow> ('v \<Rightarrow> (int \<Rightarrow> 'r) option) \<Rightarrow> ('v \<Rightarrow> int field) \<Rightarrow> 'v list \<Rightarrow>
   'r list \<times> int \<Rightarrow> error + 'r list \<times> int" where
  "bulk_insert pk row key [] t = Inr t"
| "bulk_insert pk row key (v # vs) t =
     (case insert_key (field_option (key v)) (map pk (fst t)) (snd t) of
        Mismatch \<Rightarrow> Inl (DatabaseError ''datatype mismatch'')
      | Full \<Rightarrow> Inl (DatabaseError ''database or disk is full'')
      | Taken k \<Rightarrow> bulk_insert pk row key vs (fst t, max (snd t) k)
      | Fresh k \<Rightarrow>
          (case row v of
             None \<Rightarrow> bulk_insert pk row key vs (fst t, max (snd t) k)
           | Some mk \<Rightarrow> bulk_insert pk row key vs (fst t @ [mk k], max (snd t) k)))"

definition bulkCreate ::
  "('r \<Rightarrow> int) \<Rightarrow> ('v \<Rightarrow> (int \<Rightarrow> 'r) option) \<Rightarrow> ('v \<Rightarrow> int field) \<Rightarrow> ('r \<Rightarrow> bool) \<Rightarrow>
   'v json \<Rightarrow> 'r list \<times> int \<Rightarrow> error + 'r list \<times> int" where
  "bulkCreate pk row key fk_ok records t =
     (case records of
        JArr vs \<Rightarrow>
          (case bulk_insert pk row key vs t of
             Inl e \<Rightarrow> Inl e
           | Inr t' \<Rightarrow>
               if list_all fk_ok (drop (length (fst t)) (fst t')) then Inr t'
               else Inl ForeignKeyConstraintError)
      | JStr str \<Rightarrow>
          if str = [] then Inr t else Inl (TypeError ''records.map is not a function'')
      | _ \<Rightarrow> Inr t)"

definition Autor_bulkCreate :: "autor_values json \<Rightarrow> store \<Rightarrow> (error + unit) \<times> store" where
  "Autor_bulkCreate records s =
     (case bulkCreate idautor autor_row v_idautor (\<lambda>a. True) records
             (autores s, autor_seq s) of
        Inl e \<Rightarrow> (Inl e, logged (BulkCreate Autor) s)
      | Inr (rows, seq) \<Rightarrow>
          (Inr (), logged (BulkCreate Autor) (s\<lparr>autores := rows, autor_seq := seq\<rparr>)))"

definition Antologia_bulkCreate ::
  "antologia_values json \<Rightarrow> store \<Rightarrow> (error + unit) \<times> store" where
  "Antologia_bulkCreate records s =
     (case bulkCreate antologia_id antologia_row v_antologia_id
             (\<lambda>e. reference_ok (map idautor (autores s)) (antologia_idautor e))
             records (antologias s, antologia_seq s) of
        Inl e \<Rightarrow> (Inl e, logged (BulkCreate Antologia) s)
      | Inr (rows, seq) \<Rightarrow>
          (Inr (), logged (BulkCreate Antologia) (s\<lparr>antologias := rows, antologia_seq := seq\<rparr>)))"

definition Like_bulkCreate :: "like_values json \<Rightarrow> store \<Rightarrow> (error + unit) \<times> store" where
  "Like_bulkCreate records s =
     (case bulkCreate like_id like_row v_like_id
             (\<lambda>l. reference_ok (map antologia_id (antologias s)) (idantologia l))
             records (likes s, like_seq s) of
        Inl e \<Rightarrow> (Inl e, logged (BulkCreate Like) s)
      | Inr (rows, seq) \<Rightarrow>
          (Inr (), logged (BulkCreate Like) (s\<lparr>likes := rows, like_seq := seq\<rparr>)))"

section \<open>Reading, updating and deleting rows\<close>

definition Autor_count :: "store \<Rightarrow> nat \<times> store" where
  "Autor_count s = (length (autores s), logged (Count Autor) s)"

definition Antologia_count :: "store \<Rightarrow> nat \<times> store" where
  "Antologia_count s = (length (antologias s), logged (Count Antologia) s)"

text \<open>
  \<open>Autor.findOne()\<close>: the first row the store lists, \<open>null\<close> on an empty table.  The rows
  of \<open>findOne\<close>, \<open>findAll()\<close> and \<open>findByPk\<close> carry their keys as JavaScript numbers.
\<close>

definition Autor_findOne :: "store \<Rightarrow> autor option \<times> store" where
  "Autor_findOne s =
     ((case autores s of [] \<Rightarrow> None | a # _ \<Rightarrow> Some (js_autor a)), logged (FindOne Autor) s)"

definition Autor_findAll :: "store \<Rightarrow> autor list \<times> store" where
  "Autor_findAll s = (map js_autor (autores s), logged (FindAll Autor) s)"

definition Antologia_findAll :: "store \<Rightarrow> antologia list \<times> store" where
  "Antologia_findAll s = (map js_antologia (antologias s), logged (FindAll Antologia) s)"

definition Like_findAll :: "store \<Rightarrow> like list \<times> store" where
  "Like_findAll s = (map js_like (likes s), logged (FindAll Like) s)"

text \<open>
  \<open>Like.findAll({where: {idantologia: p}})\<close>; a NULL \<open>idantologia\<close> equals no key.  The
  store selects the rows, on the keys it holds; this query and the listing query below
  are given on the rows as they are stored.
\<close>

definition Like_findAll_where :: "int \<Rightarrow> store \<Rightarrow> like list \<times> store" where
  "Like_findAll_where p s =
     (filter (\<lambda>l. idantologia l = Some p) (likes s), logged (FindAll Like) s)"

text \<open>
  The listing query of \<open>GET /antologia\<close>: every Antologia row, with the three public
  columns of the Autor its \<open>idautor\<close> refers to (a left join: \<open>null\<close> when there is none)
  and \<open>likesCount\<close>, the literal subquery
  \<open>(SELECT COUNT(*) FROM Likes WHERE Likes.idantologia = Antologia.id)\<close>.
\<close>

record autor_public =
  p_nombre :: string
  p_biografia :: "string option"
  p_urlfoto :: "string option"

record antologia_view =
  entry :: antologia
  included_Autor :: "autor_public option"
  likesCount :: nat

definition likes_of :: "int \<Rightarrow> like list \<Rightarrow> like list" where
  "likes_of k ls = filter (\<lambda>l. idantologia l = Some k) ls"

definition include_Autor :: "autor list \<Rightarrow> antologia \<Rightarrow> autor_public option" where
  "include_Autor as e =
     (case antologia_idautor e of
        None \<Rightarrow> None
      | Some k \<Rightarrow>
          (case find (\<lambda>a. idautor a = k) as of
             None \<Rightarrow> None
           | Some a \<Rightarrow>
               Some \<lparr>p_nombre = nombre a, p_biografia = biografia a, p_urlfoto = urlfoto a\<rparr>))"

definition view_of :: "store \<Rightarrow> antologia \<Rightarrow> antologia_view" where
  "view_of s e =
     \<lparr>entry = e, included_Autor = include_Autor (autores s) e,
      likesCount = length (likes_of (antologia_id e) (likes s))\<rparr>"

definition Antologia_findAll_include :: "store \<Rightarrow> antologia_view list \<times> store" where
  "Antologia_findAll_include s =
     (map (view_of s) (antologias s), logged (FindAll Antologia) s)"

definition Autor_findByPk :: "int \<Rightarrow> store \<Rightarrow> autor option \<times> store" where
  "Autor_findByPk p s =
     (map_option js_autor (find (\<lambda>a. idautor a = p) (autores s)), logged (FindByPk Autor) s)"

definition Antologia_findByPk :: "int \<Rightarrow> store \<Rightarrow> antologia option \<times> store" where
  "Antologia_findByPk p s =
     (map_option js_antologia (find (\<lambda>e. antologia_id e = p) (antologias s)),
      logged (FindByPk Antologia) s)"

text \<open>
  \<open>Model.update(values, {where})\<close>.  When the body names no column of the model the
  mapping layer sends nothing to the store and returns 0.  Otherwise it validates the
  given values first (\<open>null\<close> for an \<open>allowNull: false\<close> column is refused), then rewrites
  the rows the \<open>where\<close> clause selects and returns how many there were.  The statement
  fails, and changes nothing, when it gives a selected row a reference to an absent row.
\<close>

fun set_required :: "'a field \<Rightarrow> 'a \<Rightarrow> 'a" where
  "set_required (Val v) old = v"
| "set_required _ old = old"

fun set_nullable :: "'a field \<Rightarrow> 'a option \<Rightarrow> 'a option" where
  "set_nullable Absent old = old"
| "set_nullable Null old = None"
| "set_nullable (Val v) old = Some v"

definition autor_apply :: "autor_changes \<Rightarrow> autor \<Rightarrow> autor" where
  "autor_apply c a =
     a\<lparr>nombre := set_required (c_nombre c) (nombre a),
       biografia := set_nullable (c_biografia c) (biografia a),
       urlfoto := set_nullable (c_urlfoto c) (urlfoto a)\<rparr>"

definition antologia_apply :: "antologia_changes \<Rightarrow> antologia \<Rightarrow> antologia" where
  "antologia_apply c e =
     e\<lparr>titulo := set_required (c_titulo c) (titulo e),
       antologia_idautor := set_nullable (c_antologia_idautor c) (antologia_idautor e),
       contenido := set_nullable (c_contenido c) (contenido e),
       referencia := set_nullable (c_referencia c) (referencia e),
       tituloObra := set_nullable (c_tituloObra c) (tituloObra e),
       autorObra := set_nullable (c_autorObra c) (autorObra e)\<rparr>"

definition Autor_update :: "autor_changes \<Rightarrow> int \<Rightarrow> store \<Rightarrow> (error + nat) \<times> store" where
  "Autor_update c p s =
     (if c_nombre c = Absent \<and> c_biografia c = Absent \<and> c_urlfoto c = Absent
      then (Inr 0, logged (Update Autor) s)
      else if c_nombre c = Null
      then (Inl (ValidationError ''notNull Violation: Autor.nombre cannot be null''),
            logged (Update Autor) s)
      else (Inr (length (filter (\<lambda>a. idautor a = p) (autores s))),
            logged (Update Autor)
              (s\<lparr>autores := map (\<lambda>a. if idautor a = p then autor_apply c a else a)
                                (autores s)\<rparr>)))"

definition Antologia_update ::
  "antologia_changes \<Rightarrow> int \<Rightarrow> store \<Rightarrow> (error + nat) \<times> store" where
  "Antologia_update c p s =
     (if c_titulo c = Absent \<and> c_antologia_idautor c = Absent \<and> c_contenido c = Absent
         \<and> c_referencia c = Absent \<and> c_tituloObra c = Absent \<and> c_autorObra c = Absent
      then (Inr 0, logged (Update Antologia) s)
      else if c_titulo c = Null
      then (Inl (ValidationError ''notNull Violation: Antologia.titulo cannot be null''),
            logged (Update Antologia) s)
      else if filter (\<lambda>e. antologia_id e = p) (antologias s) \<noteq> []
              \<and> \<not> reference_ok (map idautor (autores s)) (field_option (c_antologia_idautor c))
      then (Inl ForeignKeyConstraintError, logged (Update Antologia) s)
      else (Inr (length (filter (\<lambda>e. antologia_id e = p) (antologias s))),
            logged (Update Antologia)
              (s\<lparr>antologias := map (\<lambda>e. if antologia_id e = p then antologia_apply c e else e)
                                   (antologias s)\<rparr>)))"

text \<open>
  \<open>Model.destroy({where})\<close> deletes the selected rows of its own table and returns their
  number; \<open>where: {}\<close> selects every row.  The statement fails, and deletes nothing, when
  a row of the child table refers to one of the selected rows.  The \<open>AUTOINCREMENT\<close>
  counter stays.
\<close>

definition Antologia_destroy_where :: "int \<Rightarrow> store \<Rightarrow> (error + nat) \<times> store" where
  "Antologia_destroy_where p s =
     (if referenced (map antologia_id (filter (\<lambda>e. antologia_id e = p) (antologias s)))
           (map idantologia (likes s))
      then (Inl ForeignKeyConstraintError, logged (DestroyWhere Antologia p) s)
      else (Inr (length (filter (\<lambda>e. antologia_id e = p) (antologias s))),
            logged (DestroyWhere Antologia p)
              (s\<lparr>antologias := filter (\<lambda>e. antologia_id e \<noteq> p) (antologias s)\<rparr>)))"

definition Like_destroy_all :: "store \<Rightarrow> (error + nat) \<times> store" where
  "Like_destroy_all s = (Inr (length (likes s)), logged (DestroyAll Like) (s\<lparr>likes := []\<rparr>))"

definition Antologia_destroy_all :: "store \<Rightarrow> (error + nat) \<times> store" where
  "Antologia_destroy_all s =
     (if referenced (map antologia_id (antologias s)) (map idantologia (likes s))
      then (Inl ForeignKeyConstraintError, logged (DestroyAll Antologia) s)
      else (Inr (length (antologias s)), logged (DestroyAll Antologia) (s\<lparr>antologias := []\<rparr>)))"

definition Autor_destroy_all :: "store \<Rightarrow> (error + nat) \<times> store" where
  "Autor_destroy_all s =
     (if referenced (map idautor (autores s)) (map antologia_idautor (antologias s))
      then (Inl ForeignKeyConstraintError, logged (DestroyAll Autor) s)
      else (Inr (length (autores s)), logged (DestroyAll Autor) (s\<lparr>autores := []\<rparr>)))"

text \<open>
  \<open>sequelize.sync({force: true})\<close> drops every table and creates it again, empty and with
  a fresh counter.

  \<open>sequelize.sync({alter: true})\<close> rebuilds the tables one after the other, Autor first:
  the rows are copied aside, the table is dropped, created again and filled from the
  copy.  The rows stay, the counter of the table does not.  Dropping a table whose rows
  are referred to fails, and the synchronisation stops there with that error.
\<close>

definition sync_force :: "store \<Rightarrow> store" where
  "sync_force s =
     logged Sync_force
       (s\<lparr>autores := [], antologias := [], likes := [],
          autor_seq := 0, antologia_seq := 0, like_seq := 0\<rparr>)"

definition sync_alter :: "store \<Rightarrow> (error + unit) \<times> store" where
  "sync_alter s =
     (if referenced (map idautor (autores s)) (map antologia_idautor (antologias s))
      then (Inl ForeignKeyConstraintError, logged Sync_alter s)
      else if referenced (map antologia_id (antologias s)) (map idantologia (likes s))
      then (Inl ForeignKeyConstraintError, logged Sync_alter (s\<lparr>autor_seq := 0\<rparr>))
      else (Inr (),
            logged Sync_alter (s\<lparr>autor_seq := 0, antologia_seq := 0, like_seq := 0\<rparr>)))"

section \<open>Responses\<close>

record dump =
  d_autores :: "autor list"
  d_antologias :: "antologia list"
  d_likes :: "like list"

text \<open>\<open>ErrorJson e\<close> is the body \<open>{error: e.message}\<close>, \<open>MessageJson m\<close> is \<open>{message: m}\<close>.\<close>

datatype payload =
    MessageJson string
  | ErrorJson error
  | NullJson
  | AutorJson autor
  | AntologiaJson antologia
  | LikeJson like
  | AutoresJson "autor list"
  | AntologiasJson "antologia_view list"
  | LikesJson "like list"
  | DumpFile dump

record response =
  status :: nat
  body :: payload

section \<open>Lifecycle: initializeDatabase\<close>

text \<open>
  The seed strings hold the characters U+00E1, U+00F1, U+00E9 and U+00ED, written here
  by their code.
\<close>

definition seed_autor :: autor_values where
  "seed_autor =
     \<lparr>v_idautor = Absent,
      v_nombre = Val (''Ada Aurora S'' @ [CHR 0xE1] @ ''nchez Pe'' @ [CHR 0xF1] @ ''a''),
      v_biografia =
        Val (''Investigadora y acad'' @ [CHR 0xE9] @ ''mica de la Universidad de Colima''),
      v_urlfoto = Val ''https://example.com/default-author-image.png''\<rparr>"

definition seed_antologia :: "int \<Rightarrow> antologia_values" where
  "seed_antologia k =
     \<lparr>v_antologia_id = Absent,
      v_titulo = Val (''Primera Antolog'' @ [CHR 0xED] @ ''a''),
      v_antologia_idautor = Val k,
      v_contenido =
        Val (''Contenido de ejemplo de la primera antolog'' @ [CHR 0xED] @ ''a''),
      v_referencia = Val ''Referencia de ejemplo'',
      v_tituloObra = Val ''Obra de ejemplo'',
      v_autorObra = Val ''Autor de la obra de ejemplo''\<rparr>"

text \<open>
  The seeding both variants share, after the schema is synchronised: a default author
  when the count is zero, then a default anthology when that count is zero and
  \<open>findOne\<close> finds an author.  An error leaves at the point where it is thrown.
\<close>

definition seed_defaults :: "store \<Rightarrow> (error + bool) \<times> store" where
  "seed_defaults s1 =
     (let (autorCount, s2) = Autor_count s1 in
      case (if autorCount = 0
            then (case Autor_create seed_autor s2 of
                    (Inl e, s3) \<Rightarrow> (Inl e, s3)
                  | (Inr a, s3) \<Rightarrow> (Inr (), s3))
            else (Inr (), s2)) of
        (Inl e, s3) \<Rightarrow> (Inl e, s3)
      | (Inr u, s3) \<Rightarrow>
          (let (antologiaCount, s4) = Antologia_count s3 in
           if antologiaCount = 0
           then (let (defaultAuthor, s5) = Autor_findOne s4 in
                 case defaultAuthor of
                   None \<Rightarrow> (Inr True, s5)
                 | Some a \<Rightarrow>
                     (case Antologia_create (seed_antologia (idautor a)) s5 of
                        (Inl e, s6) \<Rightarrow> (Inl e, s6)
                      | (Inr x, s6) \<Rightarrow> (Inr True, s6)))
           else (Inr True, s4)))"

text \<open>
  \<open>initializeDatabase\<close> of the service with the export, import and reset routes:
  \<open>sync({force: true})\<close>, the seeding, \<open>return true\<close>; its \<open>catch\<close> logs and throws again.
\<close>

definition initializeDatabase :: "store \<Rightarrow> (error + bool) \<times> store" where
  "initializeDatabase s = seed_defaults (sync_force s)"

text \<open>
  \<open>initializeDatabase\<close> of the other service file: \<open>sync({alter: true})\<close>, the same
  seeding; its \<open>catch\<close> logs the error of either and the function returns all the same.
\<close>

definition initializeDatabase_alter :: "store \<Rightarrow> unit \<times> store" where
  "initializeDatabase_alter s =
     (case sync_alter s of
        (Inl e, s1) \<Rightarrow> ((), s1)
      | (Inr u, s1) \<Rightarrow> ((), snd (seed_defaults s1)))"

section \<open>Request handlers\<close>

definition ok :: "payload \<Rightarrow> response" where
  "ok b = \<lparr>status = 200, body = b\<rparr>"

definition server_error :: "error \<Rightarrow> response" where
  "server_error e = \<lparr>status = 500, body = ErrorJson e\<rparr>"

text \<open>\<open>GET /database/export\<close>: the three tables as they are, sent as a file.\<close>

definition get_database_export :: "store \<Rightarrow> response \<times> store" where
  "get_database_export s =
     (let (as, s1) = Autor_findAll s;
          (es, s2) = Antologia_findAll s1;
          (ls, s3) = Like_findAll s2
      in (ok (DumpFile \<lparr>d_autores = as, d_antologias = es, d_likes = ls\<rparr>), s3))"

text \<open>
  \<open>POST /database/import\<close>: one \<open>try\<close> around three guarded batches, each of the form
  \<open>if (autores) { await Autor.bulkCreate(autores, {ignoreDuplicates: true}) }\<close>.
\<close>

record import_body =
  b_autores :: "autor_values json"
  b_antologias :: "antologia_values json"
  b_likes :: "like_values json"

definition step_autores :: "import_body \<Rightarrow> store \<Rightarrow> (error + unit) \<times> store" where
  "step_autores b s =
     (if truthy (b_autores b) then Autor_bulkCreate (b_autores b) s else (Inr (), s))"

definition step_antologias :: "import_body \<Rightarrow> store \<Rightarrow> (error + unit) \<times> store" where
  "step_antologias b s =
     (if truthy (b_antologias b) then Antologia_bulkCreate (b_antologias b) s else (Inr (), s))"

definition step_likes :: "import_body \<Rightarrow> store \<Rightarrow> (error + unit) \<times> store" where
  "step_likes b s =
     (if truthy (b_likes b) then Like_bulkCreate (b_likes b) s else (Inr (), s))"

definition post_database_import :: "import_body \<Rightarrow> store \<Rightarrow> response \<times> store" where
  "post_database_import b s =
     (case step_autores b s of
        (Inl e, s1) \<Rightarrow> (server_error e, s1)
      | (Inr u, s1) \<Rightarrow>
          (case step_antologias b s1 of
             (Inl e, s2) \<Rightarrow> (server_error e, s2)
           | (Inr u, s2) \<Rightarrow>
               (case step_likes b s2 of
                  (Inl e, s3) \<Rightarrow> (server_error e, s3)
                | (Inr u, s3) \<Rightarrow>
                    (\<lparr>status = 200,
                      body = MessageJson ''Base de datos importada exitosamente''\<rparr>, s3))))"

text \<open>\<open>POST /database/reset\<close>.\<close>

definition post_database_reset :: "store \<Rightarrow> response \<times> store" where
  "post_database_reset s =
     (case Like_destroy_all s of
        (Inl e, s1) \<Rightarrow> (server_error e, s1)
      | (Inr n1, s1) \<Rightarrow>
          (case Antologia_destroy_all s1 of
             (Inl e, s2) \<Rightarrow> (server_error e, s2)
           | (Inr n2, s2) \<Rightarrow>
               (case Autor_destroy_all s2 of
                  (Inl e, s3) \<Rightarrow> (server_error e, s3)
                | (Inr n3, s3) \<Rightarrow>
                    (case initializeDatabase s3 of
                       (Inl e, s4) \<Rightarrow> (server_error e, s4)
                     | (Inr r, s4) \<Rightarrow>
                         (\<lparr>status = 200,
                           body = MessageJson ''Base de datos reinicializada exitosamente''\<rparr>,
                          s4)))))"

text \<open>\<open>POST /antologia\<close>, \<open>PUT /antologia/:id\<close>, \<open>DELETE /antologia/:id\<close>, \<open>GET /antologia\<close>.\<close>

definition post_antologia :: "antologia_values \<Rightarrow> store \<Rightarrow> response \<times> store" where
  "post_antologia v s =
     (case Antologia_create v s of
        (Inl e, s1) \<Rightarrow> (server_error e, s1)
      | (Inr e, s1) \<Rightarrow> (\<lparr>status = 201, body = AntologiaJson e\<rparr>, s1))"

definition put_antologia :: "int \<Rightarrow> antologia_changes \<Rightarrow> store \<Rightarrow> response \<times> store" where
  "put_antologia p c s =
     (case Antologia_update c p s of
        (Inl e, s1) \<Rightarrow> (server_error e, s1)
      | (Inr updated, s1) \<Rightarrow>
          if updated \<noteq> 0
          then (let (updatedAntologia, s2) = Antologia_findByPk p s1 in
                (ok (case updatedAntologia of None \<Rightarrow> NullJson | Some e \<Rightarrow> AntologiaJson e),
                 s2))
          else (server_error (Error ''Anthology not found''), s1))"

definition delete_antologia :: "int \<Rightarrow> store \<Rightarrow> response \<times> store" where
  "delete_antologia p s =
     (case Antologia_destroy_where p s of
        (Inl e, s1) \<Rightarrow> (server_error e, s1)
      | (Inr deleted, s1) \<Rightarrow>
          if deleted \<noteq> 0
          then (ok (MessageJson ''Anthology deleted successfully''), s1)
          else (server_error (Error ''Anthology not found''), s1))"

definition get_antologia :: "store \<Rightarrow> response \<times> store" where
  "get_antologia s =
     (let (antologias, s1) = Antologia_findAll_include s in
      if length antologias = 0
      then (\<lparr>status = 404, body = MessageJson ''No anthologies found''\<rparr>, s1)
      else (\<lparr>status = 200, body = AntologiasJson antologias\<rparr>, s1))"

text \<open>\<open>GET /autores\<close>, \<open>POST /autores\<close>, \<open>PUT /autores/:id\<close>.\<close>

definition get_autores :: "store \<Rightarrow> response \<times> store" where
  "get_autores s =
     (let (as, s1) = Autor_findAll s in (\<lparr>status = 200, body = AutoresJson as\<rparr>, s1))"

definition post_autores :: "autor_values \<Rightarrow> store \<Rightarrow> response \<times> store" where
  "post_autores v s =
     (case Autor_create v s of
        (Inl e, s1) \<Rightarrow> (server_error e, s1)
      | (Inr a, s1) \<Rightarrow> (\<lparr>status = 201, body = AutorJson a\<rparr>, s1))"

definition put_autores :: "int \<Rightarrow> autor_changes \<Rightarrow> store \<Rightarrow> response \<times> store" where
  "put_autores p c s =
     (case Autor_update c p s of
        (Inl e, s1) \<Rightarrow> (server_error e, s1)
      | (Inr updated, s1) \<Rightarrow>
          if updated \<noteq> 0
          then (let (updatedAutor, s2) = Autor_findByPk p s1 in
                (ok (case updatedAutor of None \<Rightarrow> NullJson | Some a \<Rightarrow> AutorJson a), s2))
          else (server_error (Error ''Author not found''), s1))"

text \<open>\<open>POST /like\<close>, \<open>GET /like/:idantologia\<close>.\<close>

definition post_like :: "like_values \<Rightarrow> store \<Rightarrow> response \<times> store" where
  "post_like v s =
     (case Like_create v s of
        (Inl e, s1) \<Rightarrow> (server_error e, s1)
      | (Inr l, s1) \<Rightarrow> (\<lparr>status = 201, body = LikeJson l\<rparr>, s1))"

definition get_like :: "int \<Rightarrow> store \<Rightarrow> response \<times> store" where
  "get_like p s =
     (let (ls, s1) = Like_findAll_where p s in (\<lparr>status = 200, body = LikesJson ls\<rparr>, s1))"

section \<open>The routes\<close>

datatype request =
    GET_database_export
  | POST_database_import import_body
  | POST_database_reset
  | POST_antologia antologia_values
  | PUT_antologia int antologia_changes
  | DELETE_antologia int
  | GET_antologia
  | GET_autores
  | POST_autores autor_values
  | PUT_autores int autor_changes
  | POST_like like_values
  | GET_like int

fun app :: "request \<Rightarrow> store \<Rightarrow> response \<times> store" where
  "app GET_database_export s = get_database_export s"
| "app (POST_database_import b) s = post_database_import b s"
| "app POST_database_reset s = post_database_reset s"
| "app (POST_antologia v) s = post_antologia v s"
| "app (PUT_antologia p c) s = put_antologia p c s"
| "app (DELETE_antologia p) s = delete_antologia p s"
| "app GET_antologia s = get_antologia s"
| "app GET_autores s = get_autores s"
| "app (POST_autores v) s = post_autores v s"
| "app (PUT_autores p c) s = put_autores p c s"
| "app (POST_like v) s = post_like v s"
| "app (GET_like p) s = get_like p s"

section \<open>Snapshots as request bodies\<close>

text \<open>
  The exported file is \<open>JSON.stringify\<close> of the three row lists: every column of a row
  appears, a NULL column as \<open>null\<close>.  Parsed back, it is a body for the import route.
\<close>

definition field_of :: "'a option \<Rightarrow> 'a field" where
  "field_of x = (case x of None \<Rightarrow> Null | Some v \<Rightarrow> Val v)"

definition autor_json :: "autor \<Rightarrow> autor_values" where
  "autor_json a =
     \<lparr>v_idautor = Val (idautor a), v_nombre = Val (nombre a),
      v_biografia = field_of (biografia a), v_urlfoto = field_of (urlfoto a)\<rparr>"

definition antologia_json :: "antologia \<Rightarrow> antologia_values" where
  "antologia_json e =
     \<lparr>v_antologia_id = Val (antologia_id e), v_titulo = Val (titulo e),
      v_antologia_idautor = field_of (antologia_idautor e),
      v_contenido = field_of (contenido e), v_referencia = field_of (referencia e),
      v_tituloObra = field_of (tituloObra e), v_autorObra = field_of (autorObra e)\<rparr>"

definition like_json :: "like \<Rightarrow> like_values" where
  "like_json l =
     \<lparr>v_like_id = Val (like_id l), v_idantologia = field_of (idantologia l),
      v_userId = field_of (userId l), v_userEmail = field_of (userEmail l)\<rparr>"

definition snapshot_body :: "dump \<Rightarrow> import_body" where
  "snapshot_body d =
     \<lparr>b_autores = JArr (map autor_json (d_autores d)),
      b_antologias = JArr (map antologia_json (d_antologias d)),
      b_likes = JArr (map like_json (d_likes d))\<rparr>"

text \<open>The body a client posts to the import route after an export of the store.\<close>

definition exported_body :: "store \<Rightarrow> import_body" where
  "exported_body s =
     (case body (fst (get_database_export s)) of
        DumpFile d \<Rightarrow> snapshot_body d
      | _ \<Rightarrow> \<lparr>b_autores = JUndefined, b_antologias = JUndefined, b_likes = JUndefined\<rparr>)"

section \<open>Properties of stores and snapshots\<close>

text \<open>The primary-key constraint of the three tables.\<close>

definition unique_keys :: "store \<Rightarrow> bool" where
  "unique_keys s \<longleftrightarrow>
     distinct (map idautor (autores s)) \<and> distinct (map antologia_id (antologias s))
     \<and> distinct (map like_id (likes s))"

text \<open>The foreign-key constraints: every reference is NULL or the key of a row.\<close>

definition references_hold :: "store \<Rightarrow> bool" where
  "references_hold s \<longleftrightarrow>
     list_all (\<lambda>e. reference_ok (map idautor (autores s)) (antologia_idautor e)) (antologias s)
     \<and> list_all (\<lambda>l. reference_ok (map antologia_id (antologias s)) (idantologia l)) (likes s)"

definition constraints_hold :: "store \<Rightarrow> bool" where
  "constraints_hold s \<longleftrightarrow> unique_keys s \<and> references_hold s"

text \<open>Every key of the store is read as itself by JavaScript.\<close>

definition safe_keys :: "store \<Rightarrow> bool" where
  "safe_keys s \<longleftrightarrow>
     list_all (\<lambda>a. \<bar>idautor a\<bar> \<le> 2 ^ 53) (autores s)
     \<and> list_all (\<lambda>e. \<bar>antologia_id e\<bar> \<le> 2 ^ 53) (antologias s)
     \<and> list_all (\<lambda>l. \<bar>like_id l\<bar> \<le> 2 ^ 53) (likes s)"

text \<open>Two stores with the same rows and counters; the call logs may differ.\<close>

definition same_rows :: "store \<Rightarrow> store \<Rightarrow> bool" where
  "same_rows s t \<longleftrightarrow>
     autores s = autores t \<and> antologias s = antologias t \<and> likes s = likes t
     \<and> autor_seq s = autor_seq t \<and> antologia_seq s = antologia_seq t \<and> like_seq s = like_seq t"

text \<open>A snapshot in which every row of every batch carries its primary key.\<close>

definition carries_key :: "('v \<Rightarrow> int field) \<Rightarrow> 'v json \<Rightarrow> bool" where
  "carries_key key records =
     (case records of
        JArr vs \<Rightarrow> list_all (\<lambda>v. field_option (key v) \<noteq> None) vs
      | _ \<Rightarrow> True)"

definition keyed_snapshot :: "import_body \<Rightarrow> bool" where
  "keyed_snapshot b \<longleftrightarrow>
     carries_key v_idautor (b_autores b) \<and> carries_key v_antologia_id (b_antologias b)
     \<and> carries_key v_like_id (b_likes b)"

section \<open>Example stores\<close>

definition empty_store :: store where
  "empty_store =
     \<lparr>autores = [], antologias = [], likes = [],
      autor_seq = 0, antologia_seq = 0, like_seq = 0, calls = []\<rparr>"

definition ana :: autor where
  "ana = \<lparr>idautor = 1, nombre = ''Ana'', biografia = None, urlfoto = None\<rparr>"

definition first_entry :: antologia where
  "first_entry =
     \<lparr>antologia_id = 1, titulo = ''Uno'', antologia_idautor = Some 1, contenido = None,
      referencia = None, tituloObra = None, autorObra = None\<rparr>"

definition second_entry :: antologia where
  "second_entry =
     \<lparr>antologia_id = 2, titulo = ''Dos'', antologia_idautor = None, contenido = None,
      referencia = None, tituloObra = None, autorObra = None\<rparr>"

definition like_of :: "int \<Rightarrow> int option \<Rightarrow> like" where
  "like_of k e = \<lparr>like_id = k, idantologia = e, userId = Some ''u'', userEmail = None\<rparr>"

text \<open>
  One author, one entry of that author with two likes, one entry without author that
  nobody likes, and one like that belongs to no entry.
\<close>

definition example_store :: store where
  "example_store =
     \<lparr>autores = [ana], antologias = [first_entry, second_entry],
      likes = [like_of 1 (Some 1), like_of 2 (Some 1), like_of 3 None],
      autor_seq = 1, antologia_seq = 2, like_seq = 3, calls = []\<rparr>"

text \<open>A store in which no row refers to another: one author and one entry without author.\<close>

definition loose_store :: store where
  "loose_store =
     \<lparr>autores = [ana], antologias = [second_entry], likes = [],
      autor_seq = 1, antologia_seq = 2, like_seq = 0, calls = []\<rparr>"

text \<open>A store whose single author has the key \<open>2 ^ 53\<close>, and one with the next key too.\<close>

definition large_store :: store where
  "large_store =
     \<lparr>autores = [ana\<lparr>idautor := 9007199254740992\<rparr>], antologias = [], likes = [],
      autor_seq = 9007199254740992, antologia_seq = 0, like_seq = 0, calls = []\<rparr>"

definition larger_store :: store where
  "larger_store =
     \<lparr>autores = [ana\<lparr>idautor := 9007199254740992\<rparr>,
                 \<lparr>idautor = 9007199254740993, nombre = ''Eva'', biografia = None,
                  urlfoto = None\<rparr>],
      antologias = [], likes = [],
      autor_seq = 9007199254740993, antologia_seq = 0, like_seq = 0, calls = []\<rparr>"

definition no_changes_autor :: autor_changes where
  "no_changes_autor = \<lparr>c_nombre = Val ''Eva'', c_biografia = Absent, c_urlfoto = Absent\<rparr>"

definition no_changes_antologia :: antologia_changes where
  "no_changes_antologia =
     \<lparr>c_titulo = Val ''Tres'', c_antologia_idautor = Absent, c_contenido = Absent,
      c_referencia = Absent, c_tituloObra = Absent, c_autorObra = Absent\<rparr>"

definition nameless :: autor_values where
  "nameless = \<lparr>v_idautor = Absent, v_nombre = Val [], v_biografia = Absent, v_urlfoto = Absent\<rparr>"

definition eva :: autor_values where
  "eva = \<lparr>v_idautor = Absent, v_nombre = Val ''Eva'', v_biografia = Absent, v_urlfoto = Absent\<rparr>"

definition uno :: antologia_values where
  "uno =
     \<lparr>v_antologia_id = Val 1, v_titulo = Val ''Uno'', v_antologia_idautor = Null,
      v_contenido = Null, v_referencia = Null, v_tituloObra = Null, v_autorObra = Null\<rparr>"

definition like_values_of :: "int \<Rightarrow> int field \<Rightarrow> like_values" where
  "like_values_of k e =
     \<lparr>v_like_id = Val k, v_idantologia = e, v_userId = Val ''u'', v_userEmail = Null\<rparr>"

text \<open>An import body whose \<open>autores\<close> is a string.\<close>

definition broken_import :: import_body where
  "broken_import = \<lparr>b_autores = JStr ''x'', b_antologias = JArr [uno], b_likes = JArr []\<rparr>"

text \<open>
  An import body with an author, an entry that refers to an author 7, and a like of no
  entry; and one without authors, with an entry without author, a like of that entry and
  a like of an entry 9.
\<close>

definition dangling_entry :: import_body where
  "dangling_entry =
     \<lparr>b_autores = JArr [eva\<lparr>v_idautor := Val 1\<rparr>],
      b_antologias = JArr [uno\<lparr>v_antologia_idautor := Val 7\<rparr>],
      b_likes = JArr [like_values_of 1 Null]\<rparr>"

definition dangling_like :: import_body where
  "dangling_like =
     \<lparr>b_autores = JNull,
      b_antologias = JArr [uno],
      b_likes = JArr [like_values_of 1 (Val 1), like_values_of 2 (Val 9)]\<rparr>"

text \<open>An import body with one author that has no \<open>idautor\<close>.\<close>

definition keyless_import :: import_body where
  "keyless_import = \<lparr>b_autores = JArr [eva], b_antologias = JUndefined, b_likes = JUndefined\<rparr>"

section \<open>The store calls, unfolded\<close>

lemmas orm_defs =
  logged_def Autor_count_def Antologia_count_def Autor_findOne_def Autor_findAll_def
  Antologia_findAll_def Like_findAll_def Like_findAll_where_def Antologia_findAll_include_def
  Autor_findByPk_def Antologia_findByPk_def Like_destroy_all_def Antologia_destroy_all_def
  Autor_destroy_all_def Antologia_destroy_where_def sync_force_def sync_alter_def

lemmas key_defs =
  insert_key_def next_id_def min_rowid_def max_rowid_def reference_ok_def referenced_def

lemmas create_defs =
  Autor_create_def Antologia_create_def Like_create_def create_row_def insert_row_def
  autor_row_def antologia_row_def like_row_def

lemmas bulk_defs =
  Autor_bulkCreate_def Antologia_bulkCreate_def Like_bulkCreate_def bulkCreate_def

lemmas js_defs =
  js_number_def js_autor_def js_antologia_def js_like_def round_even_def binades_def

lemmas example_defs =
  empty_store_def example_store_def loose_store_def large_store_def larger_store_def
  ana_def first_entry_def second_entry_def like_of_def
  no_changes_autor_def no_changes_antologia_def nameless_def eva_def uno_def
  like_values_of_def broken_import_def dangling_entry_def dangling_like_def keyless_import_def

lemmas import_defs =
  post_database_import_def step_autores_def step_antologias_def step_likes_def

lemma referenced_no_refs: "\<not> referenced ids []"
  by (simp add: referenced_def)

lemma js_number_1: "js_number 1 = 1"
  by (simp add: js_number_def)

section \<open>Fresh keys\<close>

lemma fold_max_ge: "(seq::int) \<le> fold max ids seq"
  by (induction ids arbitrary: seq) (auto intro: order_trans [OF max.cobounded2])

lemma fold_max_mem: "(k::int) \<in> set ids \<Longrightarrow> k \<le> fold max ids seq"
proof (induction ids arbitrary: seq)
  case Nil
  then show ?case by simp
next
  case (Cons a ids)
  show ?case
  proof (cases "k = a")
    case True
    have "a \<le> max a seq" by simp
    also have "\<dots> \<le> fold max ids (max a seq)" by (rule fold_max_ge)
    finally show ?thesis using True by simp
  next
    case False
    with Cons show ?thesis by simp
  qed
qed

lemma next_id_fresh: "next_id seq ids \<notin> set ids"
  using fold_max_mem [of "next_id seq ids" ids seq] by (auto simp: next_id_def)

lemma next_id_above: "seq < next_id seq ids"
  using fold_max_ge [of seq ids] by (simp add: next_id_def)

section \<open>Batches of rows\<close>

lemma js_number_safe: "\<bar>k\<bar> \<le> 2 ^ 53 \<Longrightarrow> js_number k = k"
  by (simp add: js_number_def)

lemma safe_in_range: "\<bar>k\<bar> \<le> 2 ^ 53 \<Longrightarrow> \<not> (k < min_rowid \<or> max_rowid < k)"
  unfolding min_rowid_def max_rowid_def by (simp, linarith)

lemma not_referenced_Nil: "\<not> referenced [] refs"
  by (induction refs) (auto simp: referenced_def split: option.splits)

lemma referenced_iff:
  "referenced ids refs \<longleftrightarrow> (\<exists>k. Some k \<in> set refs \<and> k \<in> set ids)"
  by (auto simp: referenced_def list_ex_iff split: option.splits)

lemma autor_row_pk: "\<forall>v mk k. autor_row v = Some mk \<longrightarrow> idautor (mk k) = k"
  by (auto simp: autor_row_def split: option.splits)

lemma antologia_row_pk:
  "\<forall>v mk k. antologia_row v = Some mk \<longrightarrow> antologia_id (mk k) = k"
  by (auto simp: antologia_row_def split: option.splits)

lemma like_row_pk: "\<forall>v mk k. like_row v = Some mk \<longrightarrow> like_id (mk k) = k"
  by (auto simp: like_row_def)

text \<open>One step of a batch, as a function on the table.\<close>

lemma bulk_insert_Cons_cases:
  assumes "bulk_insert pk row key (v # vs) t = Inr t1"
  obtains k t' where "bulk_insert pk row key vs t' = Inr t1"
    and "insert_key (field_option (key v)) (map pk (fst t)) (snd t) = Taken k
           \<and> t' = (fst t, max (snd t) k)
         \<or> insert_key (field_option (key v)) (map pk (fst t)) (snd t) = Fresh k
           \<and> row v = None \<and> t' = (fst t, max (snd t) k)
         \<or> (\<exists>mk. insert_key (field_option (key v)) (map pk (fst t)) (snd t) = Fresh k
           \<and> row v = Some mk \<and> t' = (fst t @ [mk k], max (snd t) k))"
  using assms by (auto split: key_outcome.splits option.splits)

lemma bulk_insert_extends:
  "bulk_insert pk row key vs t = Inr t1 \<Longrightarrow> (\<exists>ys. fst t1 = fst t @ ys) \<and> snd t \<le> snd t1"
proof (induction vs arbitrary: t)
  case Nil
  then show ?case by simp
next
  case (Cons v vs)
  from Cons.prems obtain k t' where rest: "bulk_insert pk row key vs t' = Inr t1"
    and step: "(\<exists>ys. fst t' = fst t @ ys) \<and> snd t \<le> snd t'"
    by (rule bulk_insert_Cons_cases) auto
  from Cons.IH [OF rest] step show ?case by auto
qed

lemma insert_key_Val:
  "insert_key (Some k) ids seq = Taken j \<Longrightarrow> j = k \<and> k \<in> set ids \<and> \<not> (k < min_rowid \<or> max_rowid < k)"
  "insert_key (Some k) ids seq = Fresh j \<Longrightarrow> j = k \<and> k \<notin> set ids \<and> \<not> (k < min_rowid \<or> max_rowid < k)"
  by (auto simp: insert_key_def split: if_splits)

text \<open>After a batch every keyed row of it is in the table or was refused for a NULL.\<close>

lemma bulk_insert_present:
  assumes mk_pk: "\<forall>v mk k. row v = Some mk \<longrightarrow> pk (mk k) = k"
  shows "bulk_insert pk row key vs t = Inr t1 \<Longrightarrow> v \<in> set vs \<Longrightarrow> key v = Val k \<Longrightarrow>
         \<not> (k < min_rowid \<or> max_rowid < k) \<and> k \<le> snd t1
         \<and> (k \<in> pk ` set (fst t1) \<or> row v = None)"
proof (induction vs arbitrary: t)
  case Nil
  then show ?case by simp
next
  case (Cons w ws)
  from Cons.prems(1) obtain j t' where rest: "bulk_insert pk row key ws t' = Inr t1"
    and step: "insert_key (field_option (key w)) (map pk (fst t)) (snd t) = Taken j
           \<and> t' = (fst t, max (snd t) j)
         \<or> insert_key (field_option (key w)) (map pk (fst t)) (snd t) = Fresh j
           \<and> row w = None \<and> t' = (fst t, max (snd t) j)
         \<or> (\<exists>mk. insert_key (field_option (key w)) (map pk (fst t)) (snd t) = Fresh j
           \<and> row w = Some mk \<and> t' = (fst t @ [mk j], max (snd t) j))"
    by (rule bulk_insert_Cons_cases)
  have ext: "(\<exists>ys. fst t1 = fst t' @ ys) \<and> snd t' \<le> snd t1"
    using rest by (rule bulk_insert_extends)
  show ?case
  proof (cases "v = w")
    case True
    then have kw: "field_option (key w) = Some k" using Cons.prems(3) by simp
    have "\<not> (k < min_rowid \<or> max_rowid < k) \<and> k \<le> snd t'
        \<and> (k \<in> pk ` set (fst t') \<or> row w = None)"
      using step mk_pk unfolding kw
      by (auto dest!: insert_key_Val)
    then show ?thesis using ext True by auto
  next
    case False
    then have "v \<in> set ws" using Cons.prems(2) by simp
    with rest show ?thesis using Cons.prems(3) by (rule Cons.IH)
  qed
qed

text \<open>A batch of rows that are all there already, or refused, leaves the table alone.\<close>

lemma bulk_insert_skip:
  "\<forall>v \<in> set vs. \<exists>k. key v = Val k \<and> \<not> (k < min_rowid \<or> max_rowid < k) \<and> k \<le> snd t
      \<and> (k \<in> pk ` set (fst t) \<or> row v = None) \<Longrightarrow>
   bulk_insert pk row key vs t = Inr t"
proof (induction vs)
  case Nil
  then show ?case by simp
next
  case (Cons v vs)
  then obtain k where k: "key v = Val k" "\<not> (k < min_rowid \<or> max_rowid < k)" "k \<le> snd t"
    "k \<in> pk ` set (fst t) \<or> row v = None"
    by auto
  have same: "(fst t, max (snd t) k) = t" using k(3) by (cases t) (simp add: max_def)
  have rest: "bulk_insert pk row key vs t = Inr t" using Cons by simp
  show ?case
  proof (cases "k \<in> pk ` set (fst t)")
    case True
    then have "insert_key (field_option (key v)) (map pk (fst t)) (snd t) = Taken k"
      using k by (simp add: insert_key_def)
    then show ?thesis using same rest by simp
  next
    case False
    then have "insert_key (field_option (key v)) (map pk (fst t)) (snd t) = Fresh k"
      and "row v = None"
      using k by (simp_all add: insert_key_def)
    then show ?thesis using same rest by simp
  qed
qed

lemma bulk_insert_twice:
  assumes mk_pk: "\<forall>v mk k. row v = Some mk \<longrightarrow> pk (mk k) = k"
    and keyed: "list_all (\<lambda>v. field_option (key v) \<noteq> None) vs"
    and first: "bulk_insert pk row key vs t = Inr t1"
  shows "bulk_insert pk row key vs t1 = Inr t1"
proof (rule bulk_insert_skip, rule ballI)
  fix v assume v: "v \<in> set vs"
  then have "field_option (key v) \<noteq> None" using keyed by (simp add: list_all_iff)
  then obtain k where k: "key v = Val k" by (cases "key v") auto
  have "\<not> (k < min_rowid \<or> max_rowid < k) \<and> k \<le> snd t1
      \<and> (k \<in> pk ` set (fst t1) \<or> row v = None)"
    using mk_pk first v k by (rule bulk_insert_present)
  with k show "\<exists>k. key v = Val k \<and> \<not> (k < min_rowid \<or> max_rowid < k) \<and> k \<le> snd t1
      \<and> (k \<in> pk ` set (fst t1) \<or> row v = None)"
    by blast
qed

lemma bulkCreate_twice:
  assumes mk_pk: "\<forall>v mk k. row v = Some mk \<longrightarrow> pk (mk k) = k"
    and keyed: "carries_key key records"
    and first: "bulkCreate pk row key fk_ok records t = Inr t1"
  shows "bulkCreate pk row key fk_ok' records t1 = Inr t1"
proof (cases records)
  case (JArr vs)
  then have k: "list_all (\<lambda>v. field_option (key v) \<noteq> None) vs"
    using keyed by (simp add: carries_key_def)
  from first JArr have "bulk_insert pk row key vs t = Inr t1"
    by (auto simp: bulkCreate_def split: sum.splits if_splits)
  with mk_pk k have "bulk_insert pk row key vs t1 = Inr t1" by (rule bulk_insert_twice)
  then show ?thesis using JArr by (simp add: bulkCreate_def)
qed (use first in \<open>auto simp: bulkCreate_def split: if_splits\<close>)

lemma Autor_bulkCreate_frame:
  "Autor_bulkCreate r s = (x, s1) \<Longrightarrow>
   antologias s1 = antologias s \<and> antologia_seq s1 = antologia_seq s
   \<and> likes s1 = likes s \<and> like_seq s1 = like_seq s"
  by (auto simp: Autor_bulkCreate_def logged_def split: sum.splits)

lemma Antologia_bulkCreate_frame:
  "Antologia_bulkCreate r s = (x, s1) \<Longrightarrow>
   autores s1 = autores s \<and> autor_seq s1 = autor_seq s
   \<and> likes s1 = likes s \<and> like_seq s1 = like_seq s"
  by (auto simp: Antologia_bulkCreate_def logged_def split: sum.splits)

lemma Like_bulkCreate_frame:
  "Like_bulkCreate r s = (x, s1) \<Longrightarrow>
   autores s1 = autores s \<and> autor_seq s1 = autor_seq s
   \<and> antologias s1 = antologias s \<and> antologia_seq s1 = antologia_seq s"
  by (auto simp: Like_bulkCreate_def logged_def split: sum.splits)

text \<open>A batch that failed has changed no row and no counter.\<close>

lemma bulkCreate_failed_same_rows:
  "Autor_bulkCreate r s = (Inl e, s1) \<Longrightarrow> same_rows s1 s"
  "Antologia_bulkCreate r' s = (Inl e, s1) \<Longrightarrow> same_rows s1 s"
  "Like_bulkCreate r'' s = (Inl e, s1) \<Longrightarrow> same_rows s1 s"
  by (auto simp: bulk_defs logged_def same_rows_def split: sum.splits)

text \<open>
  A batch of keyed rows run again, on any store that has the tables the batch reads as the
  first run left them, has the same outcome and changes no row and no counter.
\<close>

lemma Autor_bulkCreate_again:
  assumes "carries_key v_idautor r" and "Autor_bulkCreate r s = (x, s1)"
    and "autores t = autores s1" and "autor_seq t = autor_seq s1"
  shows "\<exists>t1. Autor_bulkCreate r t = (x, t1) \<and> same_rows t1 t"
proof (cases "bulkCreate idautor autor_row v_idautor (\<lambda>a. True) r (autores s, autor_seq s)")
  case (Inl e)
  then have "x = Inl e" and "autores s1 = autores s" and "autor_seq s1 = autor_seq s"
    using assms(2) by (auto simp: Autor_bulkCreate_def logged_def)
  then show ?thesis using Inl assms(3,4)
    by (simp add: Autor_bulkCreate_def logged_def same_rows_def)
next
  case (Inr t')
  then have x: "x = Inr ()" and t': "t' = (autores s1, autor_seq s1)"
    using assms(2) by (auto simp: Autor_bulkCreate_def logged_def split: prod.splits)
  from autor_row_pk assms(1) Inr
  have "bulkCreate idautor autor_row v_idautor (\<lambda>a. True) r t' = Inr t'"
    by (rule bulkCreate_twice)
  then show ?thesis using x t' assms(3,4)
    by (simp add: Autor_bulkCreate_def logged_def same_rows_def)
qed

lemma Antologia_bulkCreate_again:
  assumes "carries_key v_antologia_id r" and "Antologia_bulkCreate r s = (x, s1)"
    and "autores t = autores s1" and "antologias t = antologias s1"
    and "antologia_seq t = antologia_seq s1"
  shows "\<exists>t1. Antologia_bulkCreate r t = (x, t1) \<and> same_rows t1 t"
proof (cases "bulkCreate antologia_id antologia_row v_antologia_id
                (\<lambda>e. reference_ok (map idautor (autores s)) (antologia_idautor e)) r
                (antologias s, antologia_seq s)")
  case (Inl e)
  then have "x = Inl e" and "antologias s1 = antologias s"
    and "antologia_seq s1 = antologia_seq s" and "autores s1 = autores s"
    using assms(2) by (auto simp: Antologia_bulkCreate_def logged_def)
  then show ?thesis using Inl assms(3,4,5)
    by (simp add: Antologia_bulkCreate_def logged_def same_rows_def)
next
  case (Inr t')
  then have x: "x = Inr ()" and t': "t' = (antologias s1, antologia_seq s1)"
    using assms(2) by (auto simp: Antologia_bulkCreate_def logged_def split: prod.splits)
  from antologia_row_pk assms(1) Inr
  have "bulkCreate antologia_id antologia_row v_antologia_id
          (\<lambda>e. reference_ok (map idautor (autores t)) (antologia_idautor e)) r t' = Inr t'"
    by (rule bulkCreate_twice)
  then show ?thesis using x t' assms(4,5)
    by (simp add: Antologia_bulkCreate_def logged_def same_rows_def)
qed

lemma Like_bulkCreate_again:
  assumes "carries_key v_like_id r" and "Like_bulkCreate r s = (x, s1)"
    and "antologias t = antologias s1" and "likes t = likes s1"
    and "like_seq t = like_seq s1"
  shows "\<exists>t1. Like_bulkCreate r t = (x, t1) \<and> same_rows t1 t"
proof (cases "bulkCreate like_id like_row v_like_id
                (\<lambda>l. reference_ok (map antologia_id (antologias s)) (idantologia l)) r
                (likes s, like_seq s)")
  case (Inl e)
  then have "x = Inl e" and "likes s1 = likes s"
    and "like_seq s1 = like_seq s" and "antologias s1 = antologias s"
    using assms(2) by (auto simp: Like_bulkCreate_def logged_def)
  then show ?thesis using Inl assms(3,4,5)
    by (simp add: Like_bulkCreate_def logged_def same_rows_def)
next
  case (Inr t')
  then have x: "x = Inr ()" and t': "t' = (likes s1, like_seq s1)"
    using assms(2) by (auto simp: Like_bulkCreate_def logged_def split: prod.splits)
  from like_row_pk assms(1) Inr
  have "bulkCreate like_id like_row v_like_id
          (\<lambda>l. reference_ok (map antologia_id (antologias t)) (idantologia l)) r t' = Inr t'"
    by (rule bulkCreate_twice)
  then show ?thesis using x t' assms(4,5)
    by (simp add: Like_bulkCreate_def logged_def same_rows_def)
qed

lemma post_database_import_steps:
  "post_database_import b u =
      (case step_autores b u of (Inl e, u1) \<Rightarrow> (server_error e, u1)
       | (Inr x, u1) \<Rightarrow> (case step_antologias b u1 of (Inl e, u2) \<Rightarrow> (server_error e, u2)
          | (Inr x, u2) \<Rightarrow> (case step_likes b u2 of (Inl e, u3) \<Rightarrow> (server_error e, u3)
             | (Inr x, u3) \<Rightarrow>
                 (\<lparr>status = 200, body = MessageJson ''Base de datos importada exitosamente''\<rparr>,
                  u3))))"
  by (simp only: post_database_import_def)

lemma import_again:
  assumes k: "keyed_snapshot b"
    and first: "post_database_import b s = (r, s')"
  shows "\<exists>t'. post_database_import b s' = (r, t') \<and> same_rows t' s'"
proof -
  have kA: "carries_key v_idautor (b_autores b)"
    and kN: "carries_key v_antologia_id (b_antologias b)"
    and kL: "carries_key v_like_id (b_likes b)"
    using k by (simp_all add: keyed_snapshot_def)
  note imp = post_database_import_steps
  have A_frame: "step_autores b u = (x, u1) \<Longrightarrow>
      antologias u1 = antologias u \<and> antologia_seq u1 = antologia_seq u
      \<and> likes u1 = likes u \<and> like_seq u1 = like_seq u" for u x u1
    using Autor_bulkCreate_frame [of "b_autores b" u x u1]
    by (auto simp: step_autores_def split: if_splits)
  have N_frame: "step_antologias b u = (x, u1) \<Longrightarrow>
      autores u1 = autores u \<and> autor_seq u1 = autor_seq u
      \<and> likes u1 = likes u \<and> like_seq u1 = like_seq u" for u x u1
    using Antologia_bulkCreate_frame [of "b_antologias b" u x u1]
    by (auto simp: step_antologias_def split: if_splits)
  have L_frame: "step_likes b u = (x, u1) \<Longrightarrow>
      autores u1 = autores u \<and> autor_seq u1 = autor_seq u
      \<and> antologias u1 = antologias u \<and> antologia_seq u1 = antologia_seq u" for u x u1
    using Like_bulkCreate_frame [of "b_likes b" u x u1]
    by (auto simp: step_likes_def split: if_splits)
  have A_again: "step_autores b u = (x, u1) \<Longrightarrow> autores t = autores u1 \<Longrightarrow>
      autor_seq t = autor_seq u1 \<Longrightarrow> \<exists>t1. step_autores b t = (x, t1) \<and> same_rows t1 t"
    for u x u1 t
    using Autor_bulkCreate_again [OF kA, of u x u1 t]
    by (auto simp: step_autores_def same_rows_def split: if_splits)
  have N_again: "step_antologias b u = (x, u1) \<Longrightarrow> autores t = autores u1 \<Longrightarrow>
      antologias t = antologias u1 \<Longrightarrow> antologia_seq t = antologia_seq u1 \<Longrightarrow>
      \<exists>t1. step_antologias b t = (x, t1) \<and> same_rows t1 t" for u x u1 t
    using Antologia_bulkCreate_again [OF kN, of u x u1 t]
    by (auto simp: step_antologias_def same_rows_def split: if_splits)
  have L_again: "step_likes b u = (x, u1) \<Longrightarrow> antologias t = antologias u1 \<Longrightarrow>
      likes t = likes u1 \<Longrightarrow> like_seq t = like_seq u1 \<Longrightarrow>
      \<exists>t1. step_likes b t = (x, t1) \<and> same_rows t1 t" for u x u1 t
    using Like_bulkCreate_again [OF kL, of u x u1 t]
    by (auto simp: step_likes_def same_rows_def split: if_splits)
  obtain xa s1 where a: "step_autores b s = (xa, s1)" by (cases "step_autores b s")
  show ?thesis
  proof (cases xa)
    case (Inl e)
    then have s': "s' = s1" and r: "r = server_error e" using first a by (auto simp: imp)
    from A_again [OF a, of s1] obtain t1 where "step_autores b s1 = (xa, t1)" "same_rows t1 s1"
      by auto
    then show ?thesis using Inl s' r by (auto simp: imp)
  next
    case xa: (Inr ua)
    obtain xn s2 where n: "step_antologias b s1 = (xn, s2)" by (cases "step_antologias b s1")
    show ?thesis
    proof (cases xn)
      case (Inl e)
      then have s': "s' = s2" and r: "r = server_error e" using first a n xa by (auto simp: imp)
      have "autores s2 = autores s1" "autor_seq s2 = autor_seq s1" using N_frame [OF n] by auto
      with A_again [OF a, of s2] obtain t1
        where t1: "step_autores b s2 = (xa, t1)" "same_rows t1 s2" by auto
      then have "autores t1 = autores s2" "antologias t1 = antologias s2"
        "antologia_seq t1 = antologia_seq s2"
        by (auto simp: same_rows_def)
      with N_again [OF n, of t1] obtain t2
        where t2: "step_antologias b t1 = (xn, t2)" "same_rows t2 t1" by auto
      show ?thesis using Inl xa s' r t1 t2 by (auto simp: imp same_rows_def)
    next
      case xn: (Inr un)
      obtain xl s3 where l: "step_likes b s2 = (xl, s3)" by (cases "step_likes b s2")
      have s': "s' = s3" using first a n l xa xn by (cases xl) (auto simp: imp)
      have "autores s3 = autores s1" "autor_seq s3 = autor_seq s1"
        using N_frame [OF n] L_frame [OF l] by auto
      with A_again [OF a, of s3] obtain t1
        where t1: "step_autores b s3 = (xa, t1)" "same_rows t1 s3" by auto
      then have "autores t1 = autores s2" "antologias t1 = antologias s2"
        "antologia_seq t1 = antologia_seq s2"
        using N_frame [OF n] L_frame [OF l] by (auto simp: same_rows_def)
      with N_again [OF n, of t1] obtain t2
        where t2: "step_antologias b t1 = (xn, t2)" "same_rows t2 t1" by auto
      then have "antologias t2 = antologias s3" "likes t2 = likes s3" "like_seq t2 = like_seq s3"
        using t1 by (auto simp: same_rows_def)
      with L_again [OF l, of t2] obtain t3
        where t3: "step_likes b t2 = (xl, t3)" "same_rows t3 t2" by auto
      show ?thesis using first a n l xa xn s' t1 t2 t3
        by (cases xl) (auto simp: imp same_rows_def)
    qed
  qed
qed

section \<open>Exported rows\<close>

lemma list_all_True: "list_all (\<lambda>x. True) xs"
  by (simp add: list_all_iff)

lemma field_option_field_of: "field_option (field_of x) = x"
  by (cases x) (simp_all add: field_of_def)

lemma bulk_insert_restore:
  assumes restore: "\<forall>r. \<exists>mk. row (tov r) = Some mk \<and> mk (pk r) = r \<and> key (tov r) = Val (pk r)"
  shows "distinct (map pk (pre @ rows)) \<Longrightarrow> \<forall>r \<in> set rows. \<bar>pk r\<bar> \<le> 2 ^ 53 \<Longrightarrow>
         \<exists>q. bulk_insert pk row key (map tov rows) (pre, seq) = Inr (pre @ rows, q)"
proof (induction rows arbitrary: pre seq)
  case Nil
  then show ?case by simp
next
  case (Cons r rows)
  from restore obtain mk where mk: "row (tov r) = Some mk" "mk (pk r) = r" "key (tov r) = Val (pk r)"
    by blast
  have new: "pk r \<notin> set (map pk pre)" using Cons.prems(1) by auto
  have range: "\<not> (pk r < min_rowid \<or> max_rowid < pk r)"
    using Cons.prems(2) by (intro safe_in_range) simp
  have step: "insert_key (Some (pk r)) (map pk pre) seq = Fresh (pk r)"
    using new range by (simp add: insert_key_def)
  have "distinct (map pk ((pre @ [r]) @ rows))" using Cons.prems(1) by simp
  moreover have "\<forall>r \<in> set rows. \<bar>pk r\<bar> \<le> 2 ^ 53" using Cons.prems(2) by simp
  ultimately have "\<exists>q. bulk_insert pk row key (map tov rows) (pre @ [r], max seq (pk r))
      = Inr ((pre @ [r]) @ rows, q)"
    by (rule Cons.IH)
  then show ?case using mk step by simp
qed

lemma autor_json_back:
  "\<forall>a. \<exists>mk. autor_row (autor_json a) = Some mk \<and> mk (idautor a) = a
      \<and> v_idautor (autor_json a) = Val (idautor a)"
  by (simp add: autor_row_def autor_json_def field_option_field_of)

lemma antologia_json_back:
  "\<forall>e. \<exists>mk. antologia_row (antologia_json e) = Some mk \<and> mk (antologia_id e) = e
      \<and> v_antologia_id (antologia_json e) = Val (antologia_id e)"
  by (simp add: antologia_row_def antologia_json_def field_option_field_of)

lemma like_json_back:
  "\<forall>l. \<exists>mk. like_row (like_json l) = Some mk \<and> mk (like_id l) = l
      \<and> v_like_id (like_json l) = Val (like_id l)"
  by (simp add: like_row_def like_json_def field_option_field_of)

text \<open>In a store with safe keys whose references hold, JavaScript reads every row as it is.\<close>

lemma reference_safe:
  "reference_ok ids r \<Longrightarrow> \<forall>k \<in> set ids. \<bar>k\<bar> \<le> 2 ^ 53 \<Longrightarrow> map_option js_number r = r"
  by (cases r) (auto simp: reference_ok_def js_number_safe)

lemma js_rows_safe:
  assumes "safe_keys s" and "references_hold s"
  shows "map js_autor (autores s) = autores s"
    and "map js_antologia (antologias s) = antologias s"
    and "map js_like (likes s) = likes s"
proof -
  have a: "\<forall>k \<in> set (map idautor (autores s)). \<bar>k\<bar> \<le> 2 ^ 53"
    and n: "\<forall>k \<in> set (map antologia_id (antologias s)). \<bar>k\<bar> \<le> 2 ^ 53"
    and l: "\<forall>k \<in> set (map like_id (likes s)). \<bar>k\<bar> \<le> 2 ^ 53"
    using assms(1) by (auto simp: safe_keys_def list_all_iff)
  show "map js_autor (autores s) = autores s"
    using a by (intro map_idI) (simp add: js_autor_def js_number_safe)
  show "map js_antologia (antologias s) = antologias s"
  proof (rule map_idI)
    fix e assume e: "e \<in> set (antologias s)"
    then have "reference_ok (map idautor (autores s)) (antologia_idautor e)"
      using assms(2) by (simp add: references_hold_def list_all_iff)
    then have "map_option js_number (antologia_idautor e) = antologia_idautor e"
      using a by (rule reference_safe)
    then show "js_antologia e = e" using e n by (simp add: js_antologia_def js_number_safe)
  qed
  show "map js_like (likes s) = likes s"
  proof (rule map_idI)
    fix x assume x: "x \<in> set (likes s)"
    then have "reference_ok (map antologia_id (antologias s)) (idantologia x)"
      using assms(2) by (simp add: references_hold_def list_all_iff)
    then have "map_option js_number (idantologia x) = idantologia x"
      using n by (rule reference_safe)
    then show "js_like x = x" using x l by (simp add: js_like_def js_number_safe)
  qed
qed

section \<open>The constraints are kept\<close>

lemma insert_key_Fresh: "insert_key g ids seq = Fresh k \<Longrightarrow> k \<notin> set ids"
  using next_id_fresh [of seq ids]
  by (auto simp: insert_key_def split: option.splits if_splits)

lemma insert_row_Inr:
  "insert_row pk mk g fk_ok t = Inr (k, t') \<Longrightarrow>
   k \<notin> set (map pk (fst t)) \<and> fst t' = fst t @ [mk k] \<and> fk_ok (mk k)"
  by (auto simp: insert_row_def split: key_outcome.splits if_splits dest: insert_key_Fresh)

lemma create_row_Inr:
  assumes "\<forall>v mk k. row v = Some mk \<longrightarrow> pk (mk k) = k"
    and "create_row msg pk row key fk_ok v t = Inr (r, t')"
  shows "\<exists>x. fst t' = fst t @ [x] \<and> pk x \<notin> set (map pk (fst t)) \<and> fk_ok x"
proof -
  from assms(2) obtain mk k where mk: "row v = Some mk"
    and ins: "insert_row pk mk (field_option (key v)) fk_ok t = Inr (k, t')"
    by (auto simp: create_row_def split: option.splits sum.splits)
  from insert_row_Inr [OF ins] assms(1) mk show ?thesis by auto
qed

lemma bulk_insert_distinct:
  assumes mk_pk: "\<forall>v mk k. row v = Some mk \<longrightarrow> pk (mk k) = k"
  shows "bulk_insert pk row key vs t = Inr t1 \<Longrightarrow> distinct (map pk (fst t)) \<Longrightarrow>
         distinct (map pk (fst t1))"
proof (induction vs arbitrary: t)
  case Nil
  then show ?case by simp
next
  case (Cons v vs)
  from Cons.prems(1) obtain k t' where rest: "bulk_insert pk row key vs t' = Inr t1"
    and step: "insert_key (field_option (key v)) (map pk (fst t)) (snd t) = Taken k
           \<and> t' = (fst t, max (snd t) k)
         \<or> insert_key (field_option (key v)) (map pk (fst t)) (snd t) = Fresh k
           \<and> row v = None \<and> t' = (fst t, max (snd t) k)
         \<or> (\<exists>mk. insert_key (field_option (key v)) (map pk (fst t)) (snd t) = Fresh k
           \<and> row v = Some mk \<and> t' = (fst t @ [mk k], max (snd t) k))"
    by (rule bulk_insert_Cons_cases)
  have "distinct (map pk (fst t'))"
    using step Cons.prems(2) mk_pk by (auto dest: insert_key_Fresh)
  with rest show ?case by (rule Cons.IH)
qed

lemma bulkCreate_Inr:
  assumes "\<forall>v mk k. row v = Some mk \<longrightarrow> pk (mk k) = k"
    and "bulkCreate pk row key fk_ok records t = Inr t1"
  shows "(distinct (map pk (fst t)) \<longrightarrow> distinct (map pk (fst t1)))
       \<and> (\<exists>ys. fst t1 = fst t @ ys \<and> list_all fk_ok ys)"
proof (cases records)
  case (JArr vs)
  with assms(2) have b: "bulk_insert pk row key vs t = Inr t1"
    and fk: "list_all fk_ok (drop (length (fst t)) (fst t1))"
    by (auto simp: bulkCreate_def split: sum.splits if_splits)
  from bulk_insert_extends [OF b] obtain ys where ys: "fst t1 = fst t @ ys" by auto
  with fk have "list_all fk_ok ys" by simp
  moreover have "distinct (map pk (fst t)) \<longrightarrow> distinct (map pk (fst t1))"
    using bulk_insert_distinct [OF assms(1) b] by simp
  ultimately show ?thesis using ys by auto
qed (use assms(2) in \<open>auto simp: bulkCreate_def split: if_splits\<close>)

lemma reference_ok_mono: "reference_ok ids r \<Longrightarrow> set ids \<subseteq> set ids' \<Longrightarrow> reference_ok ids' r"
  by (auto simp: reference_ok_def split: option.splits)

text \<open>What each call of the mapping layer does to the three tables.\<close>

lemma Autor_create_tables:
  "Autor_create v s = (x, s1) \<Longrightarrow>
   antologias s1 = antologias s \<and> likes s1 = likes s
   \<and> (autores s1 = autores s
       \<or> (\<exists>a. autores s1 = autores s @ [a] \<and> idautor a \<notin> set (map idautor (autores s))))"
  using create_row_Inr [OF autor_row_pk, of _ v_idautor "\<lambda>a. True" v "(autores s, autor_seq s)"]
  by (fastforce simp: Autor_create_def logged_def split: sum.splits)

lemma Antologia_create_tables:
  "Antologia_create v s = (x, s1) \<Longrightarrow>
   autores s1 = autores s \<and> likes s1 = likes s
   \<and> (antologias s1 = antologias s
       \<or> (\<exists>e. antologias s1 = antologias s @ [e]
            \<and> antologia_id e \<notin> set (map antologia_id (antologias s))
            \<and> reference_ok (map idautor (autores s)) (antologia_idautor e)))"
  using create_row_Inr [OF antologia_row_pk, of _ v_antologia_id
      "\<lambda>e. reference_ok (map idautor (autores s)) (antologia_idautor e)" v
      "(antologias s, antologia_seq s)"]
  by (fastforce simp: Antologia_create_def logged_def split: sum.splits)

lemma Like_create_tables:
  "Like_create v s = (x, s1) \<Longrightarrow>
   autores s1 = autores s \<and> antologias s1 = antologias s
   \<and> (likes s1 = likes s
       \<or> (\<exists>l. likes s1 = likes s @ [l] \<and> like_id l \<notin> set (map like_id (likes s))
            \<and> reference_ok (map antologia_id (antologias s)) (idantologia l)))"
  using create_row_Inr [OF like_row_pk, of _ v_like_id
      "\<lambda>l. reference_ok (map antologia_id (antologias s)) (idantologia l)" v
      "(likes s, like_seq s)"]
  by (fastforce simp: Like_create_def logged_def split: sum.splits)

lemma Autor_bulkCreate_tables:
  "Autor_bulkCreate r s = (x, s1) \<Longrightarrow>
   antologias s1 = antologias s \<and> likes s1 = likes s
   \<and> (\<exists>ys. autores s1 = autores s @ ys)
   \<and> (distinct (map idautor (autores s)) \<longrightarrow> distinct (map idautor (autores s1)))"
  using bulkCreate_Inr [OF autor_row_pk, of v_idautor "\<lambda>a. True" r "(autores s, autor_seq s)"]
  by (fastforce simp: Autor_bulkCreate_def logged_def split: sum.splits)

lemma Antologia_bulkCreate_tables:
  "Antologia_bulkCreate r s = (x, s1) \<Longrightarrow>
   autores s1 = autores s \<and> likes s1 = likes s
   \<and> (\<exists>ys. antologias s1 = antologias s @ ys
        \<and> list_all (\<lambda>e. reference_ok (map idautor (autores s)) (antologia_idautor e)) ys)
   \<and> (distinct (map antologia_id (antologias s))
        \<longrightarrow> distinct (map antologia_id (antologias s1)))"
  using bulkCreate_Inr [OF antologia_row_pk, of v_antologia_id
      "\<lambda>e. reference_ok (map idautor (autores s)) (antologia_idautor e)" r
      "(antologias s, antologia_seq s)"]
  by (fastforce simp: Antologia_bulkCreate_def logged_def split: sum.splits)

lemma Like_bulkCreate_tables:
  "Like_bulkCreate r s = (x, s1) \<Longrightarrow>
   autores s1 = autores s \<and> antologias s1 = antologias s
   \<and> (\<exists>ys. likes s1 = likes s @ ys
        \<and> list_all (\<lambda>l. reference_ok (map antologia_id (antologias s)) (idantologia l)) ys)
   \<and> (distinct (map like_id (likes s)) \<longrightarrow> distinct (map like_id (likes s1)))"
  using bulkCreate_Inr [OF like_row_pk, of v_like_id
      "\<lambda>l. reference_ok (map antologia_id (antologias s)) (idantologia l)" r
      "(likes s, like_seq s)"]
  by (fastforce simp: Like_bulkCreate_def logged_def split: sum.splits)

lemma constraints_logged [simp]: "constraints_hold (logged c s) = constraints_hold s"
  by (simp add: constraints_hold_def unique_keys_def references_hold_def logged_def)

lemma constraints_counters [simp]:
  "constraints_hold (s\<lparr>autor_seq := q\<rparr>) = constraints_hold s"
  "constraints_hold (s\<lparr>antologia_seq := q\<rparr>) = constraints_hold s"
  "constraints_hold (s\<lparr>like_seq := q\<rparr>) = constraints_hold s"
  by (simp_all add: constraints_hold_def unique_keys_def references_hold_def)

lemma references_grow:
  assumes "references_hold s"
    and "\<exists>ys. autores s1 = autores s @ ys"
    and "\<exists>ys. antologias s1 = antologias s @ ys
           \<and> list_all (\<lambda>e. reference_ok (map idautor (autores s)) (antologia_idautor e)) ys"
    and "\<exists>ys. likes s1 = likes s @ ys
           \<and> list_all (\<lambda>l. reference_ok (map antologia_id (antologias s)) (idantologia l)) ys"
  shows "references_hold s1"
proof -
  from assms(2) obtain as where as: "autores s1 = autores s @ as" by auto
  from assms(3) obtain es where es: "antologias s1 = antologias s @ es"
    "list_all (\<lambda>e. reference_ok (map idautor (autores s)) (antologia_idautor e)) es" by auto
  from assms(4) obtain ls where ls: "likes s1 = likes s @ ls"
    "list_all (\<lambda>l. reference_ok (map antologia_id (antologias s)) (idantologia l)) ls" by auto
  have 1: "reference_ok (map idautor (autores s1)) (antologia_idautor e)"
    if "e \<in> set (antologias s1)" for e
  proof -
    have "reference_ok (map idautor (autores s)) (antologia_idautor e)"
      using that assms(1) es by (auto simp: references_hold_def list_all_iff)
    then show ?thesis by (rule reference_ok_mono) (simp add: as)
  qed
  have 2: "reference_ok (map antologia_id (antologias s1)) (idantologia l)"
    if "l \<in> set (likes s1)" for l
  proof -
    have "reference_ok (map antologia_id (antologias s)) (idantologia l)"
      using that assms(1) ls by (auto simp: references_hold_def list_all_iff)
    then show ?thesis by (rule reference_ok_mono) (simp add: es(1))
  qed
  from 1 2 show ?thesis by (simp add: references_hold_def list_all_iff)
qed

lemma constraints_grow:
  assumes "constraints_hold s"
    and "\<exists>ys. autores s1 = autores s @ ys"
    and "\<exists>ys. antologias s1 = antologias s @ ys
           \<and> list_all (\<lambda>e. reference_ok (map idautor (autores s)) (antologia_idautor e)) ys"
    and "\<exists>ys. likes s1 = likes s @ ys
           \<and> list_all (\<lambda>l. reference_ok (map antologia_id (antologias s)) (idantologia l)) ys"
    and "distinct (map idautor (autores s)) \<longrightarrow> distinct (map idautor (autores s1))"
    and "distinct (map antologia_id (antologias s))
           \<longrightarrow> distinct (map antologia_id (antologias s1))"
    and "distinct (map like_id (likes s)) \<longrightarrow> distinct (map like_id (likes s1))"
  shows "constraints_hold s1"
proof -
  have "references_hold s" using assms(1) by (simp add: constraints_hold_def)
  then have "references_hold s1" using assms(2,3,4) by (rule references_grow)
  moreover have "unique_keys s1"
    using assms(1,5,6,7) by (simp add: constraints_hold_def unique_keys_def)
  ultimately show ?thesis by (simp add: constraints_hold_def)
qed

lemma Autor_create_keeps:
  assumes "Autor_create v s = (x, s1)" and "constraints_hold s"
  shows "constraints_hold s1"
  using assms(2)
proof (rule constraints_grow)
  from Autor_create_tables [OF assms(1)]
  have t: "antologias s1 = antologias s" "likes s1 = likes s"
    and a: "autores s1 = autores s
       \<or> (\<exists>a. autores s1 = autores s @ [a] \<and> idautor a \<notin> set (map idautor (autores s)))"
    by auto
  show "\<exists>ys. autores s1 = autores s @ ys" using a by auto
  show "distinct (map idautor (autores s)) \<longrightarrow> distinct (map idautor (autores s1))"
    using a by auto
qed (use Autor_create_tables [OF assms(1)] in auto)

lemma Antologia_create_keeps:
  assumes "Antologia_create v s = (x, s1)" and "constraints_hold s"
  shows "constraints_hold s1"
  using assms(2)
proof (rule constraints_grow)
  from Antologia_create_tables [OF assms(1)]
  have a: "antologias s1 = antologias s
       \<or> (\<exists>e. antologias s1 = antologias s @ [e]
            \<and> antologia_id e \<notin> set (map antologia_id (antologias s))
            \<and> reference_ok (map idautor (autores s)) (antologia_idautor e))"
    by auto
  show "\<exists>ys. antologias s1 = antologias s @ ys
      \<and> list_all (\<lambda>e. reference_ok (map idautor (autores s)) (antologia_idautor e)) ys"
    using a by auto
  show "distinct (map antologia_id (antologias s))
      \<longrightarrow> distinct (map antologia_id (antologias s1))"
    using a by auto
qed (use Antologia_create_tables [OF assms(1)] in auto)

lemma Like_create_keeps:
  assumes "Like_create v s = (x, s1)" and "constraints_hold s"
  shows "constraints_hold s1"
  using assms(2)
proof (rule constraints_grow)
  from Like_create_tables [OF assms(1)]
  have a: "likes s1 = likes s
       \<or> (\<exists>l. likes s1 = likes s @ [l] \<and> like_id l \<notin> set (map like_id (likes s))
            \<and> reference_ok (map antologia_id (antologias s)) (idantologia l))"
    by auto
  show "\<exists>ys. likes s1 = likes s @ ys
      \<and> list_all (\<lambda>l. reference_ok (map antologia_id (antologias s)) (idantologia l)) ys"
    using a by auto
  show "distinct (map like_id (likes s)) \<longrightarrow> distinct (map like_id (likes s1))"
    using a by auto
qed (use Like_create_tables [OF assms(1)] in auto)

lemma Autor_bulkCreate_keeps:
  assumes "Autor_bulkCreate r s = (x, s1)" and "constraints_hold s"
  shows "constraints_hold s1"
  using assms(2)
  by (rule constraints_grow) (use Autor_bulkCreate_tables [OF assms(1)] in auto)

lemma Antologia_bulkCreate_keeps:
  assumes "Antologia_bulkCreate r s = (x, s1)" and "constraints_hold s"
  shows "constraints_hold s1"
  using assms(2)
  by (rule constraints_grow) (use Antologia_bulkCreate_tables [OF assms(1)] in auto)

lemma Like_bulkCreate_keeps:
  assumes "Like_bulkCreate r s = (x, s1)" and "constraints_hold s"
  shows "constraints_hold s1"
  using assms(2)
  by (rule constraints_grow) (use Like_bulkCreate_tables [OF assms(1)] in auto)

lemma map_update_keys:
  "\<forall>r. pk (f r) = pk r \<Longrightarrow> map pk (map (\<lambda>r. if pk r = p then f r else r) rs) = map pk rs"
  by (induction rs) auto

lemma Autor_update_keeps:
  assumes "Autor_update c p s = (x, s1)" and "constraints_hold s"
  shows "constraints_hold s1"
proof -
  have k: "map idautor (map (\<lambda>a. if idautor a = p then autor_apply c a else a) (autores s))
      = map idautor (autores s)"
    by (rule map_update_keys) (simp add: autor_apply_def)
  have "antologias s1 = antologias s \<and> likes s1 = likes s
      \<and> map idautor (autores s1) = map idautor (autores s)"
    using assms(1) k by (auto simp: Autor_update_def logged_def split: if_splits)
  then show ?thesis using assms(2)
    by (simp add: constraints_hold_def unique_keys_def references_hold_def)
qed

lemma Antologia_update_keeps:
  assumes "Antologia_update c p s = (x, s1)" and "constraints_hold s"
  shows "constraints_hold s1"
proof -
  let ?f = "\<lambda>e. if antologia_id e = p then antologia_apply c e else e"
  have k: "map antologia_id (map ?f (antologias s)) = map antologia_id (antologias s)"
    by (rule map_update_keys) (simp add: antologia_apply_def)
  have old: "list_all (\<lambda>e. reference_ok (map idautor (autores s)) (antologia_idautor e))
      (antologias s)"
    using assms(2) by (simp add: constraints_hold_def references_hold_def)
  have new: "list_all (\<lambda>e. reference_ok (map idautor (autores s)) (antologia_idautor e))
      (map ?f (antologias s))"
    if ok: "filter (\<lambda>e. antologia_id e = p) (antologias s) = []
      \<or> reference_ok (map idautor (autores s)) (field_option (c_antologia_idautor c))"
  proof -
    have "reference_ok (map idautor (autores s)) (antologia_idautor (?f e))"
      if e: "e \<in> set (antologias s)" for e
    proof (cases "antologia_id e = p")
      case True
      then have "filter (\<lambda>e. antologia_id e = p) (antologias s) \<noteq> []"
        using e by (auto simp: filter_empty_conv)
      with ok have r: "reference_ok (map idautor (autores s))
          (field_option (c_antologia_idautor c))"
        by simp
      have "reference_ok (map idautor (autores s)) (antologia_idautor e)"
        using old e by (simp add: list_all_iff)
      with r True show ?thesis
        by (cases "c_antologia_idautor c") (simp_all add: antologia_apply_def reference_ok_def)
    next
      case False
      then show ?thesis using old e by (simp add: list_all_iff)
    qed
    then have "\<forall>e \<in> set (antologias s).
        reference_ok (map idautor (autores s)) (antologia_idautor (?f e))"
      by blast
    then show ?thesis unfolding list_all_iff set_map by blast
  qed
  have "autores s1 = autores s \<and> likes s1 = likes s
      \<and> map antologia_id (antologias s1) = map antologia_id (antologias s)
      \<and> list_all (\<lambda>e. reference_ok (map idautor (autores s)) (antologia_idautor e))
          (antologias s1)"
    using assms(1) k old new
    by (auto simp: Antologia_update_def logged_def split: if_splits)
  then show ?thesis using assms(2)
    by (simp add: constraints_hold_def unique_keys_def references_hold_def)
qed

lemma unreferenced_after:
  assumes "\<not> referenced (map pk (filter P rows)) refs"
    and "list_all (\<lambda>r. reference_ok (map pk rows) r) refs"
  shows "list_all (\<lambda>r. reference_ok (map pk (filter (\<lambda>x. \<not> P x) rows)) r) refs"
proof -
  have "reference_ok (map pk (filter (\<lambda>x. \<not> P x) rows)) r" if r: "r \<in> set refs" for r
  proof (cases r)
    case None
    then show ?thesis by (simp add: reference_ok_def)
  next
    case (Some k)
    then have "k \<in> set (map pk rows)"
      using assms(2) r by (auto simp: list_all_iff reference_ok_def)
    then obtain x where x: "x \<in> set rows" "pk x = k" by auto
    have "k \<notin> set (map pk (filter P rows))"
      using assms(1) r Some by (auto simp: referenced_iff)
    then have "\<not> P x" using x by auto
    then show ?thesis using x Some by (auto simp: reference_ok_def)
  qed
  then show ?thesis by (simp add: list_all_iff)
qed

lemma Antologia_destroy_where_keeps:
  assumes "Antologia_destroy_where p s = (x, s1)" and "constraints_hold s"
  shows "constraints_hold s1"
proof (cases "referenced (map antologia_id (filter (\<lambda>e. antologia_id e = p) (antologias s)))
           (map idantologia (likes s))")
  case True
  then show ?thesis using assms by (auto simp: Antologia_destroy_where_def)
next
  case False
  have "list_all (\<lambda>r. reference_ok (map antologia_id (antologias s)) r)
      (map idantologia (likes s))"
    using assms(2) by (simp add: constraints_hold_def references_hold_def list_all_iff)
  with False have "list_all (\<lambda>r. reference_ok
      (map antologia_id (filter (\<lambda>e. \<not> antologia_id e = p) (antologias s))) r)
      (map idantologia (likes s))"
    by (rule unreferenced_after)
  then have l: "list_all (\<lambda>l. reference_ok
      (map antologia_id (filter (\<lambda>e. antologia_id e \<noteq> p) (antologias s))) (idantologia l))
      (likes s)"
    by (simp add: list_all_iff)
  have s1: "s1 = logged (DestroyWhere Antologia p)
      (s\<lparr>antologias := filter (\<lambda>e. antologia_id e \<noteq> p) (antologias s)\<rparr>)"
    using False assms(1) by (simp add: Antologia_destroy_where_def)
  show ?thesis using assms(2) l unfolding s1
    by (auto simp: constraints_hold_def unique_keys_def references_hold_def logged_def
        distinct_map_filter list_all_iff)
qed

lemma unreferenced_all:
  assumes "\<not> referenced ids refs" and "list_all (\<lambda>r. reference_ok ids r) refs"
  shows "list_all (\<lambda>r. reference_ok [] r) refs"
proof -
  have "reference_ok [] r" if r: "r \<in> set refs" for r
  proof (cases r)
    case None
    then show ?thesis by (simp add: reference_ok_def)
  next
    case (Some k)
    then have "k \<in> set ids" using assms(2) r by (auto simp: list_all_iff reference_ok_def)
    then have False using assms(1) r Some by (auto simp: referenced_iff)
    then show ?thesis ..
  qed
  then show ?thesis by (simp add: list_all_iff)
qed

lemma destroy_all_keeps:
  "Like_destroy_all s = (x, s1) \<Longrightarrow> constraints_hold s \<Longrightarrow> constraints_hold s1"
  "Antologia_destroy_all s = (x, s1) \<Longrightarrow> constraints_hold s \<Longrightarrow> constraints_hold s1"
  "Autor_destroy_all s = (x, s1) \<Longrightarrow> constraints_hold s \<Longrightarrow> constraints_hold s1"
proof -
  show "Like_destroy_all s = (x, s1) \<Longrightarrow> constraints_hold s \<Longrightarrow> constraints_hold s1"
    by (auto simp: Like_destroy_all_def logged_def constraints_hold_def unique_keys_def
        references_hold_def)
  show "Antologia_destroy_all s = (x, s1) \<Longrightarrow> constraints_hold s \<Longrightarrow> constraints_hold s1"
  proof -
    assume d: "Antologia_destroy_all s = (x, s1)" and c: "constraints_hold s"
    show ?thesis
    proof (cases "referenced (map antologia_id (antologias s)) (map idantologia (likes s))")
      case True
      then show ?thesis using d c by (auto simp: Antologia_destroy_all_def)
    next
      case False
      have "list_all (\<lambda>r. reference_ok (map antologia_id (antologias s)) r)
          (map idantologia (likes s))"
        using c by (simp add: constraints_hold_def references_hold_def list_all_iff)
      with False have "list_all (\<lambda>r. reference_ok [] r) (map idantologia (likes s))"
        by (rule unreferenced_all)
      then have "list_all (\<lambda>l. reference_ok [] (idantologia l)) (likes s)"
        by (simp add: list_all_iff)
      then show ?thesis using False d c
        by (auto simp: Antologia_destroy_all_def logged_def constraints_hold_def unique_keys_def
            references_hold_def)
    qed
  qed
  show "Autor_destroy_all s = (x, s1) \<Longrightarrow> constraints_hold s \<Longrightarrow> constraints_hold s1"
  proof -
    assume d: "Autor_destroy_all s = (x, s1)" and c: "constraints_hold s"
    show ?thesis
    proof (cases "referenced (map idautor (autores s)) (map antologia_idautor (antologias s))")
      case True
      then show ?thesis using d c by (auto simp: Autor_destroy_all_def)
    next
      case False
      have "list_all (\<lambda>r. reference_ok (map idautor (autores s)) r)
          (map antologia_idautor (antologias s))"
        using c by (simp add: constraints_hold_def references_hold_def list_all_iff)
      with False have "list_all (\<lambda>r. reference_ok [] r) (map antologia_idautor (antologias s))"
        by (rule unreferenced_all)
      then have "list_all (\<lambda>e. reference_ok [] (antologia_idautor e)) (antologias s)"
        by (simp add: list_all_iff)
      then show ?thesis using False d c
        by (auto simp: Autor_destroy_all_def logged_def constraints_hold_def unique_keys_def
            references_hold_def)
    qed
  qed
qed

lemma sync_keeps:
  "constraints_hold (sync_force s)"
  "sync_alter s = (x, s1) \<Longrightarrow> constraints_hold s \<Longrightarrow> constraints_hold s1"
  by (auto simp: sync_force_def sync_alter_def constraints_hold_def unique_keys_def
      references_hold_def logged_def split: if_splits)

lemma seed_defaults_keeps:
  assumes "constraints_hold s"
  shows "constraints_hold (snd (seed_defaults s))"
  using assms
  by (auto simp: seed_defaults_def Autor_count_def Antologia_count_def Autor_findOne_def Let_def
      split: prod.splits sum.splits option.splits list.splits
      dest!: Autor_create_keeps Antologia_create_keeps)

lemma initializeDatabase_keeps: "constraints_hold (snd (initializeDatabase s))"
  by (simp add: initializeDatabase_def seed_defaults_keeps sync_keeps)

lemma initializeDatabase_alter_keeps:
  "constraints_hold s \<Longrightarrow> constraints_hold (snd (initializeDatabase_alter s))"
  by (auto simp: initializeDatabase_alter_def seed_defaults_keeps
      split: prod.splits sum.splits dest: sync_keeps(2))

lemma post_database_import_keeps:
  assumes "constraints_hold s"
  shows "constraints_hold (snd (post_database_import b s))"
proof -
  have uA: "constraints_hold u \<Longrightarrow> constraints_hold (snd (step_autores b u))" for u
    by (cases "Autor_bulkCreate (b_autores b) u")
       (auto simp: step_autores_def dest: Autor_bulkCreate_keeps)
  have uN: "constraints_hold u \<Longrightarrow> constraints_hold (snd (step_antologias b u))" for u
    by (cases "Antologia_bulkCreate (b_antologias b) u")
       (auto simp: step_antologias_def dest: Antologia_bulkCreate_keeps)
  have uL: "constraints_hold u \<Longrightarrow> constraints_hold (snd (step_likes b u))" for u
    by (cases "Like_bulkCreate (b_likes b) u")
       (auto simp: step_likes_def dest: Like_bulkCreate_keeps)
  obtain xa s1 where a: "step_autores b s = (xa, s1)" by (cases "step_autores b s")
  obtain xn s2 where n: "step_antologias b s1 = (xn, s2)" by (cases "step_antologias b s1")
  obtain xl s3 where l: "step_likes b s2 = (xl, s3)" by (cases "step_likes b s2")
  have u1: "constraints_hold s1" using uA [OF assms] a by simp
  have u2: "constraints_hold s2" using uN [OF u1] n by simp
  have u3: "constraints_hold s3" using uL [OF u2] l by simp
  show ?thesis
    using a n l u1 u2 u3
    by (cases xa; cases xn; cases xl) (simp_all add: post_database_import_steps)
qed

lemma app_keeps_constraints:
  assumes "constraints_hold s"
  shows "constraints_hold (snd (app req s))"
proof (cases req)
  case GET_database_export
  then show ?thesis using assms
    by (simp add: get_database_export_def Autor_findAll_def Antologia_findAll_def
        Like_findAll_def)
next
  case (POST_database_import b)
  then show ?thesis using assms by (simp add: post_database_import_keeps)
next
  case POST_database_reset
  have "initializeDatabase t = (r, t') \<Longrightarrow> constraints_hold t'" for t r t'
    using initializeDatabase_keeps [of t] by simp
  then show ?thesis using POST_database_reset assms
    by (auto simp: post_database_reset_def split: prod.splits sum.splits
        dest: destroy_all_keeps)
next
  case (POST_antologia v)
  then show ?thesis using assms
    by (auto simp: post_antologia_def split: prod.splits sum.splits
        dest: Antologia_create_keeps)
next
  case (PUT_antologia p c)
  then show ?thesis using assms
    by (auto simp: put_antologia_def Antologia_findByPk_def split: prod.splits sum.splits
        dest: Antologia_update_keeps)
next
  case (DELETE_antologia p)
  then show ?thesis using assms
    by (auto simp: delete_antologia_def split: prod.splits sum.splits
        dest: Antologia_destroy_where_keeps)
next
  case GET_antologia
  then show ?thesis using assms by (simp add: get_antologia_def Antologia_findAll_include_def)
next
  case GET_autores
  then show ?thesis using assms by (simp add: get_autores_def Autor_findAll_def)
next
  case (POST_autores v)
  then show ?thesis using assms
    by (auto simp: post_autores_def split: prod.splits sum.splits dest: Autor_create_keeps)
next
  case (PUT_autores p c)
  then show ?thesis using assms
    by (auto simp: put_autores_def Autor_findByPk_def split: prod.splits sum.splits
        dest: Autor_update_keeps)
next
  case (POST_like v)
  then show ?thesis using assms
    by (auto simp: post_like_def split: prod.splits sum.splits dest: Like_create_keeps)
next
  case (GET_like p)
  then show ?thesis using assms by (simp add: get_like_def Like_findAll_where_def)
qed

section \<open>Listing entries and likes\<close>



text \<open>
  Claim C2.  On a store without anthology entries \<open>GET /antologia\<close> answers 404 with a
  \<open>{message}\<close> body, neither a success with an empty list nor a 500 \<open>{error}\<close>.  On a
  store with at least one entry it answers 200 with one element for each entry, whatever
  the likes are.
\<close>

theorem get_antologia_empty_path:
  "(antologias s = [] \<longrightarrow>
      fst (get_antologia s) = \<lparr>status = 404, body = MessageJson ''No anthologies found''\<rparr>)
   \<and> (antologias s \<noteq> [] \<longrightarrow>
      fst (get_antologia s) =
        \<lparr>status = 200, body = AntologiasJson (map (view_of s) (antologias s))\<rparr>
      \<and> status (fst (get_antologia s)) \<noteq> 404)"
  by (simp add: get_antologia_def Antologia_findAll_include_def)

theorem get_antologia_empty_path_witness:
  "antologias empty_store = []
   \<and> fst (get_antologia empty_store) =
       \<lparr>status = 404, body = MessageJson ''No anthologies found''\<rparr>
   \<and> antologias (example_store\<lparr>likes := []\<rparr>) \<noteq> []
   \<and> status (fst (get_antologia (example_store\<lparr>likes := []\<rparr>))) = 200"
  using get_antologia_empty_path [of empty_store]
    get_antologia_empty_path [of "example_store\<lparr>likes := []\<rparr>"]
  by (simp add: example_defs)

section \<open>Export, import and reset\<close>

text \<open>
  A store with two authors whose keys are \<open>2 ^ 53\<close> and \<open>2 ^ 53 + 1\<close> satisfies its
  constraints.  JavaScript reads both keys as \<open>2 ^ 53\<close>, so the exported file holds that
  key twice, and the import of the file into the empty store keeps one author of the two.
\<close>

theorem export_then_import_restores_rows_counterexample:
  "constraints_hold larger_store
   \<and> length (autores larger_store) = 2
   \<and> status (fst (post_database_import (exported_body larger_store) empty_store)) = 200
   \<and> autores (snd (post_database_import (exported_body larger_store) empty_store)) =
       [ana\<lparr>idautor := 9007199254740992\<rparr>]
   \<and> set (autores (snd (post_database_import (exported_body larger_store) empty_store)))
       \<noteq> set (autores larger_store)"
  by (simp add: constraints_hold_def unique_keys_def references_hold_def exported_body_def
      get_database_export_def ok_def snapshot_body_def autor_json_def
      Autor_findAll_def Antologia_findAll_def Like_findAll_def
      post_database_import_def step_autores_def step_antologias_def step_likes_def
      bulk_defs key_defs autor_row_def field_of_def js_defs example_defs logged_def)

text \<open>
  Claim C3, amended.  Take any store that satisfies its primary-key and foreign-key
  constraints and whose keys are at most \<open>2 ^ 53\<close> in magnitude.
  \<open>GET /database/export\<close> answers 200 with the three tables as they are, and
  \<open>POST /database/import\<close> of that snapshot into a store with three empty tables answers
  200 and leaves in each table the rows of the exported store, keys included: the same
  set of rows for Autor, Antologia and Like (here even in the same order).
\<close>

theorem export_then_import_restores_rows:
  assumes "constraints_hold s" and "safe_keys s"
    and "autores t = [] \<and> antologias t = [] \<and> likes t = []"
  shows "\<exists>d s1 t1.
      get_database_export s = (\<lparr>status = 200, body = DumpFile d\<rparr>, s1)
    \<and> d = \<lparr>d_autores = autores s, d_antologias = antologias s, d_likes = likes s\<rparr>
    \<and> post_database_import (snapshot_body d) t =
        (\<lparr>status = 200, body = MessageJson ''Base de datos importada exitosamente''\<rparr>, t1)
    \<and> set (autores t1) = set (autores s) \<and> set (antologias t1) = set (antologias s)
    \<and> set (likes t1) = set (likes s)
    \<and> autores t1 = autores s \<and> antologias t1 = antologias s \<and> likes t1 = likes s"
proof -
  have u: "unique_keys s" and r: "references_hold s"
    using assms(1) by (simp_all add: constraints_hold_def)
  note js = js_rows_safe [OF assms(2) r]
  have safe: "\<forall>r \<in> set (autores s). \<bar>idautor r\<bar> \<le> 2 ^ 53"
    "\<forall>r \<in> set (antologias s). \<bar>antologia_id r\<bar> \<le> 2 ^ 53"
    "\<forall>r \<in> set (likes s). \<bar>like_id r\<bar> \<le> 2 ^ 53"
    using assms(2) by (auto simp: safe_keys_def list_all_iff)
  have "distinct (map idautor ([] @ autores s))" using u by (simp add: unique_keys_def)
  with autor_json_back obtain qa where a:
    "bulk_insert idautor autor_row v_idautor (map autor_json (autores s)) ([], autor_seq t)
       = Inr ([] @ autores s, qa)"
    using safe(1) by (rule bulk_insert_restore [THEN exE])
  have "distinct (map antologia_id ([] @ antologias s))"
    using u by (simp add: unique_keys_def)
  with antologia_json_back obtain qn where n:
    "bulk_insert antologia_id antologia_row v_antologia_id (map antologia_json (antologias s))
       ([], antologia_seq t) = Inr ([] @ antologias s, qn)"
    using safe(2) by (rule bulk_insert_restore [THEN exE])
  have "distinct (map like_id ([] @ likes s))" using u by (simp add: unique_keys_def)
  with like_json_back obtain ql where l:
    "bulk_insert like_id like_row v_like_id (map like_json (likes s)) ([], like_seq t)
       = Inr ([] @ likes s, ql)"
    using safe(3) by (rule bulk_insert_restore [THEN exE])
  have fk: "list_all (\<lambda>e. reference_ok (map idautor (autores s)) (antologia_idautor e))
      (antologias s)"
    "list_all (\<lambda>l. reference_ok (map antologia_id (antologias s)) (idantologia l)) (likes s)"
    using r by (simp_all add: references_hold_def)
  have exp: "get_database_export s =
      (\<lparr>status = 200,
        body = DumpFile \<lparr>d_autores = autores s, d_antologias = antologias s,
                 d_likes = likes s\<rparr>\<rparr>,
       s\<lparr>calls := calls s @ [FindAll Autor, FindAll Antologia, FindAll Like]\<rparr>)"
    by (simp add: get_database_export_def ok_def Autor_findAll_def Antologia_findAll_def
        Like_findAll_def logged_def js)
  have imp: "\<exists>t1. post_database_import
      (snapshot_body \<lparr>d_autores = autores s, d_antologias = antologias s, d_likes = likes s\<rparr>) t =
        (\<lparr>status = 200, body = MessageJson ''Base de datos importada exitosamente''\<rparr>, t1)
      \<and> autores t1 = autores s \<and> antologias t1 = antologias s \<and> likes t1 = likes s"
    using a n l fk assms(3)
    by (simp add: snapshot_body_def post_database_import_def step_autores_def
        step_antologias_def step_likes_def bulk_defs logged_def list_all_True)
  from exp imp show ?thesis by auto
qed

theorem export_then_import_restores_rows_witness:
  "constraints_hold example_store \<and> safe_keys example_store
   \<and> (autores empty_store = [] \<and> antologias empty_store = [] \<and> likes empty_store = [])
   \<and> (\<exists>t1. post_database_import
          (snapshot_body \<lparr>d_autores = autores example_store,
             d_antologias = antologias example_store, d_likes = likes example_store\<rparr>)
          empty_store =
            (\<lparr>status = 200, body = MessageJson ''Base de datos importada exitosamente''\<rparr>, t1)
        \<and> autores t1 = [ana] \<and> antologias t1 = [first_entry, second_entry]
        \<and> likes t1 = [like_of 1 (Some 1), like_of 2 (Some 1), like_of 3 None])"
proof -
  have h1: "constraints_hold example_store"
    by (simp add: constraints_hold_def unique_keys_def references_hold_def reference_ok_def
        example_defs)
  have h2: "safe_keys example_store" by (simp add: safe_keys_def example_defs)
  have h3: "autores empty_store = [] \<and> antologias empty_store = [] \<and> likes empty_store = []"
    by (simp add: empty_store_def)
  have r: "autores example_store = [ana]"
    "antologias example_store = [first_entry, second_entry]"
    "likes example_store = [like_of 1 (Some 1), like_of 2 (Some 1), like_of 3 None]"
    by (simp_all add: example_store_def)
  from export_then_import_restores_rows [OF h1 h2 h3] h1 h2 h3 show ?thesis
    unfolding r by blast
qed

text \<open>
  A snapshot with one author that has a name and no primary key: imported twice into the
  empty store, it leaves one row after the first import and two after the second.
\<close>

theorem second_import_changes_nothing_counterexample:
  "length (autores (snd (post_database_import keyless_import empty_store))) = 1
   \<and> length (autores (snd (post_database_import keyless_import
        (snd (post_database_import keyless_import empty_store))))) = 2"
  by (simp add: post_database_import_def step_autores_def step_antologias_def step_likes_def
      bulk_defs key_defs autor_row_def example_defs logged_def)

text \<open>
  Claim C4, amended.  For every store and every snapshot in which each row carries its
  primary key (as each row of an exported snapshot does), a second import right after the
  first gives the same response and inserts nothing: the three tables, their row counts
  and their counters after the second import are those after the first.
\<close>

theorem second_import_of_keyed_snapshot_changes_nothing:
  assumes "keyed_snapshot b"
  shows "\<exists>r s1 s2.
      post_database_import b s = (r, s1) \<and> post_database_import b s1 = (r, s2)
    \<and> autores s2 = autores s1 \<and> antologias s2 = antologias s1 \<and> likes s2 = likes s1
    \<and> length (autores s2) = length (autores s1)
    \<and> length (antologias s2) = length (antologias s1)
    \<and> length (likes s2) = length (likes s1)
    \<and> autor_seq s2 = autor_seq s1 \<and> antologia_seq s2 = antologia_seq s1
    \<and> like_seq s2 = like_seq s1"
proof -
  obtain r s1 where first: "post_database_import b s = (r, s1)"
    by (cases "post_database_import b s")
  with assms obtain s2 where "post_database_import b s1 = (r, s2)" and "same_rows s2 s1"
    using import_again by blast
  with first show ?thesis by (auto simp: same_rows_def)
qed

theorem second_import_of_keyed_snapshot_changes_nothing_witness:
  "keyed_snapshot (snapshot_body \<lparr>d_autores = [ana], d_antologias = [first_entry], d_likes = []\<rparr>)
   \<and> (\<exists>r s1 s2.
        post_database_import
          (snapshot_body \<lparr>d_autores = [ana], d_antologias = [first_entry], d_likes = []\<rparr>)
          empty_store = (r, s1)
      \<and> post_database_import
          (snapshot_body \<lparr>d_autores = [ana], d_antologias = [first_entry], d_likes = []\<rparr>)
          s1 = (r, s2)
      \<and> autores s2 = autores s1 \<and> antologias s2 = antologias s1 \<and> likes s2 = likes s1)
   \<and> autores (snd (post_database_import
         (snapshot_body \<lparr>d_autores = [ana], d_antologias = [first_entry], d_likes = []\<rparr>)
         empty_store)) = [ana]"
proof -
  have h: "keyed_snapshot
      (snapshot_body \<lparr>d_autores = [ana], d_antologias = [first_entry], d_likes = []\<rparr>)"
    by (simp add: keyed_snapshot_def carries_key_def snapshot_body_def autor_json_def
        antologia_json_def)
  have e: "autores (snd (post_database_import
         (snapshot_body \<lparr>d_autores = [ana], d_antologias = [first_entry], d_likes = []\<rparr>)
         empty_store)) = [ana]"
    by (simp add: post_database_import_def step_autores_def step_antologias_def step_likes_def
        snapshot_body_def autor_json_def antologia_json_def field_of_def
        bulk_defs key_defs autor_row_def antologia_row_def example_defs logged_def)
  from second_import_of_keyed_snapshot_changes_nothing [OF h, of empty_store] h e
  show ?thesis by blast
qed

text \<open>
  An import of one author, one entry that refers to an absent author, and one like of no
  entry.  The Autor batch inserts its row; the Antologia batch fails while inserting, on
  the foreign key.  The response is 500, \<open>Like.bulkCreate\<close> is not called, and the like,
  which is inserted when \<open>antologias\<close> is missing, is not.
\<close>

theorem failed_batch_does_not_stop_import_counterexample:
  "fst (step_antologias dangling_entry
          (snd (step_autores dangling_entry empty_store))) = Inl ForeignKeyConstraintError
   \<and> fst (post_database_import dangling_entry empty_store) =
       \<lparr>status = 500, body = ErrorJson ForeignKeyConstraintError\<rparr>
   \<and> calls (snd (post_database_import dangling_entry empty_store)) =
       [BulkCreate Autor, BulkCreate Antologia]
   \<and> length (autores (snd (post_database_import dangling_entry empty_store))) = 1
   \<and> likes (snd (post_database_import dangling_entry empty_store)) = []
   \<and> length (likes (snd (post_database_import (dangling_entry\<lparr>b_antologias := JNull\<rparr>)
        empty_store))) = 1"
  by (simp add: import_defs bulk_defs key_defs autor_row_def antologia_row_def like_row_def
      example_defs server_error_def logged_def)

text \<open>
  Claim C5, amended.  The three batches of \<open>POST /database/import\<close> run in sequence in
  one \<open>try\<close>.  A batch whose key is missing (falsy) is passed over: it makes no call and
  changes nothing.  Any other batch is one \<open>bulkCreate\<close> call.  The first batch that
  fails, be it Autor, Antologia or Like, ends the import with 500 \<open>{error}\<close>: the failed
  batch has changed no row, the batches after it are not called, and the store is as the
  batches before it left it.  When no batch fails the answer is 200, on the store the
  three batches leave.
\<close>

theorem import_stops_at_first_failing_batch:
  "(step_autores b s = (Inl e, s1) \<longrightarrow>
      post_database_import b s = (\<lparr>status = 500, body = ErrorJson e\<rparr>, s1)
      \<and> same_rows s1 s \<and> calls s1 = calls s @ [BulkCreate Autor])
   \<and> (step_autores b s = (Inr (), s1) \<and> step_antologias b s1 = (Inl e, s2) \<longrightarrow>
      post_database_import b s = (\<lparr>status = 500, body = ErrorJson e\<rparr>, s2)
      \<and> same_rows s2 s1 \<and> calls s2 = calls s1 @ [BulkCreate Antologia])
   \<and> (step_autores b s = (Inr (), s1) \<and> step_antologias b s1 = (Inr (), s2)
       \<and> step_likes b s2 = (Inl e, s3) \<longrightarrow>
      post_database_import b s = (\<lparr>status = 500, body = ErrorJson e\<rparr>, s3)
      \<and> same_rows s3 s2 \<and> calls s3 = calls s2 @ [BulkCreate Like])
   \<and> (step_autores b s = (Inr (), s1) \<and> step_antologias b s1 = (Inr (), s2)
       \<and> step_likes b s2 = (Inr (), s3) \<longrightarrow>
      post_database_import b s =
        (\<lparr>status = 200, body = MessageJson ''Base de datos importada exitosamente''\<rparr>, s3))
   \<and> (\<not> truthy (b_autores b) \<longrightarrow> step_autores b s = (Inr (), s))
   \<and> (\<not> truthy (b_antologias b) \<longrightarrow> step_antologias b s = (Inr (), s))
   \<and> (\<not> truthy (b_likes b) \<longrightarrow> step_likes b s = (Inr (), s))
   \<and> (truthy (b_autores b) \<longrightarrow>
        calls (snd (step_autores b s)) = calls s @ [BulkCreate Autor])
   \<and> (truthy (b_antologias b) \<longrightarrow>
        calls (snd (step_antologias b s)) = calls s @ [BulkCreate Antologia])
   \<and> (truthy (b_likes b) \<longrightarrow>
        calls (snd (step_likes b s)) = calls s @ [BulkCreate Like])"
proof -
  have fa: "step_autores b s = (Inl e, s1) \<Longrightarrow>
      same_rows s1 s \<and> calls s1 = calls s @ [BulkCreate Autor]"
    by (auto simp: step_autores_def Autor_bulkCreate_def logged_def same_rows_def
        split: if_splits sum.splits)
  have fn: "step_antologias b s1 = (Inl e, s2) \<Longrightarrow>
      same_rows s2 s1 \<and> calls s2 = calls s1 @ [BulkCreate Antologia]"
    by (auto simp: step_antologias_def Antologia_bulkCreate_def logged_def same_rows_def
        split: if_splits sum.splits)
  have fl: "step_likes b s2 = (Inl e, s3) \<Longrightarrow>
      same_rows s3 s2 \<and> calls s3 = calls s2 @ [BulkCreate Like]"
    by (auto simp: step_likes_def Like_bulkCreate_def logged_def same_rows_def
        split: if_splits sum.splits)
  have ca: "truthy (b_autores b) \<longrightarrow>
      calls (snd (step_autores b s)) = calls s @ [BulkCreate Autor]"
    by (auto simp: step_autores_def Autor_bulkCreate_def logged_def split: sum.splits)
  have cn: "truthy (b_antologias b) \<longrightarrow>
      calls (snd (step_antologias b s)) = calls s @ [BulkCreate Antologia]"
    by (auto simp: step_antologias_def Antologia_bulkCreate_def logged_def split: sum.splits)
  have cl: "truthy (b_likes b) \<longrightarrow>
      calls (snd (step_likes b s)) = calls s @ [BulkCreate Like]"
    by (auto simp: step_likes_def Like_bulkCreate_def logged_def split: sum.splits)
  have p1: "step_autores b s = (Inl e, s1) \<longrightarrow>
      post_database_import b s = (\<lparr>status = 500, body = ErrorJson e\<rparr>, s1)"
    by (simp add: post_database_import_def server_error_def)
  have p2: "step_autores b s = (Inr (), s1) \<and> step_antologias b s1 = (Inl e, s2) \<longrightarrow>
      post_database_import b s = (\<lparr>status = 500, body = ErrorJson e\<rparr>, s2)"
    by (simp add: post_database_import_def server_error_def)
  have p3: "step_autores b s = (Inr (), s1) \<and> step_antologias b s1 = (Inr (), s2)
       \<and> step_likes b s2 = (Inl e, s3) \<longrightarrow>
      post_database_import b s = (\<lparr>status = 500, body = ErrorJson e\<rparr>, s3)"
    by (simp add: post_database_import_def server_error_def)
  have p4: "step_autores b s = (Inr (), s1) \<and> step_antologias b s1 = (Inr (), s2)
       \<and> step_likes b s2 = (Inr (), s3) \<longrightarrow>
      post_database_import b s =
        (\<lparr>status = 200, body = MessageJson ''Base de datos importada exitosamente''\<rparr>, s3)"
    by (simp add: post_database_import_def)
  have sk: "(\<not> truthy (b_autores b) \<longrightarrow> step_autores b s = (Inr (), s))
     \<and> (\<not> truthy (b_antologias b) \<longrightarrow> step_antologias b s = (Inr (), s))
     \<and> (\<not> truthy (b_likes b) \<longrightarrow> step_likes b s = (Inr (), s))"
    by (simp add: step_autores_def step_antologias_def step_likes_def)
  from fa fn fl ca cn cl p1 p2 p3 p4 sk show ?thesis by blast
qed

theorem import_stops_at_first_failing_batch_witness:
  "step_autores broken_import empty_store =
       (Inl (TypeError ''records.map is not a function''),
        empty_store\<lparr>calls := [BulkCreate Autor]\<rparr>)
   \<and> fst (post_database_import broken_import empty_store) =
       \<lparr>status = 500, body = ErrorJson (TypeError ''records.map is not a function'')\<rparr>
   \<and> fst (step_autores dangling_entry empty_store) = Inr ()
   \<and> fst (step_antologias dangling_entry (snd (step_autores dangling_entry empty_store))) =
       Inl ForeignKeyConstraintError
   \<and> fst (post_database_import dangling_entry empty_store) =
       \<lparr>status = 500, body = ErrorJson ForeignKeyConstraintError\<rparr>
   \<and> \<not> truthy (b_autores dangling_like)
   \<and> fst (step_antologias dangling_like empty_store) = Inr ()
   \<and> fst (step_likes dangling_like (snd (step_antologias dangling_like empty_store))) =
       Inl ForeignKeyConstraintError
   \<and> fst (post_database_import dangling_like empty_store) =
       \<lparr>status = 500, body = ErrorJson ForeignKeyConstraintError\<rparr>
   \<and> length (antologias (snd (post_database_import dangling_like empty_store))) = 1
   \<and> likes (snd (post_database_import dangling_like empty_store)) = []
   \<and> truthy (b_autores keyless_import) \<and> \<not> truthy (b_antologias keyless_import)
   \<and> \<not> truthy (b_likes keyless_import)
   \<and> fst (post_database_import keyless_import empty_store) =
       \<lparr>status = 200, body = MessageJson ''Base de datos importada exitosamente''\<rparr>
   \<and> calls (snd (post_database_import keyless_import empty_store)) = [BulkCreate Autor]
   \<and> length (autores (snd (post_database_import keyless_import empty_store))) = 1"
proof -
  let ?T = "TypeError ''records.map is not a function''"
  let ?F = "ForeignKeyConstraintError"
  obtain a1 where a1: "step_autores broken_import empty_store = (Inl ?T, a1)"
    and a1': "a1 = empty_store\<lparr>calls := [BulkCreate Autor]\<rparr>"
    by (simp add: step_autores_def bulk_defs example_defs logged_def)
  obtain b1 where b1: "step_autores dangling_entry empty_store = (Inr (), b1)"
    by (cases "step_autores dangling_entry empty_store")
       (simp add: step_autores_def bulk_defs key_defs autor_row_def example_defs logged_def)
  obtain b2 where b2: "step_antologias dangling_entry b1 = (Inl ?F, b2)"
    using b1
    by (cases "step_antologias dangling_entry b1")
       (auto simp: step_autores_def step_antologias_def bulk_defs key_defs autor_row_def
          antologia_row_def example_defs logged_def)
  have c0: "\<not> truthy (b_autores dangling_like)" by (simp add: dangling_like_def)
  have c1: "step_autores dangling_like empty_store = (Inr (), empty_store)"
    by (simp add: step_autores_def dangling_like_def)
  obtain c2 where c2: "step_antologias dangling_like empty_store = (Inr (), c2)"
    and c2': "length (antologias c2) = 1" "likes c2 = []"
    by (cases "step_antologias dangling_like empty_store")
       (simp add: step_antologias_def bulk_defs key_defs antologia_row_def example_defs
          logged_def)
  obtain c3 where c3: "step_likes dangling_like c2 = (Inl ?F, c3)"
    using c2
    by (cases "step_likes dangling_like c2")
       (auto simp: step_antologias_def step_likes_def bulk_defs key_defs antologia_row_def
          like_row_def example_defs logged_def)
  from import_stops_at_first_failing_batch
      [where b = broken_import and s = empty_store and e = ?T and ?s1.0 = a1] a1
  have w1: "post_database_import broken_import empty_store =
      (\<lparr>status = 500, body = ErrorJson ?T\<rparr>, a1)"
    by blast
  from import_stops_at_first_failing_batch
      [where b = dangling_entry and s = empty_store and e = ?F and ?s1.0 = b1 and ?s2.0 = b2]
      b1 b2
  have w2: "post_database_import dangling_entry empty_store =
      (\<lparr>status = 500, body = ErrorJson ?F\<rparr>, b2)"
    by blast
  from import_stops_at_first_failing_batch
      [where b = dangling_like and s = empty_store and e = ?F and ?s1.0 = empty_store
         and ?s2.0 = c2 and ?s3.0 = c3]
      c1 c2 c3
  have w3: "post_database_import dangling_like empty_store =
      (\<lparr>status = 500, body = ErrorJson ?F\<rparr>, c3)" and w3': "same_rows c3 c2"
    by blast+
  have d0: "truthy (b_autores keyless_import)" "\<not> truthy (b_antologias keyless_import)"
    "\<not> truthy (b_likes keyless_import)"
    by (simp_all add: keyless_import_def)
  obtain d1 where d1: "step_autores keyless_import empty_store = (Inr (), d1)"
    and d1': "length (autores d1) = 1"
    by (cases "step_autores keyless_import empty_store")
       (simp add: step_autores_def bulk_defs key_defs autor_row_def example_defs logged_def)
  from import_stops_at_first_failing_batch [where b = keyless_import and s = d1] d0
  have d2: "step_antologias keyless_import d1 = (Inr (), d1)"
    and d3: "step_likes keyless_import d1 = (Inr (), d1)"
    by blast+
  from import_stops_at_first_failing_batch
      [where b = keyless_import and s = empty_store and ?s1.0 = d1 and ?s2.0 = d1
         and ?s3.0 = d1]
      d0 d1 d2 d3
  have w4: "post_database_import keyless_import empty_store =
      (\<lparr>status = 200, body = MessageJson ''Base de datos importada exitosamente''\<rparr>, d1)"
    and w4': "calls (snd (step_autores keyless_import empty_store)) =
      calls empty_store @ [BulkCreate Autor]"
    by blast+
  have w4'': "calls d1 = [BulkCreate Autor]"
    using w4' d1 by (simp add: empty_store_def)
  show ?thesis
    using a1 a1' b1 b2 c0 c1 c2 c2' c3 w1 w2 w3 w3' d0 d1' w4 w4''
    by (simp add: same_rows_def)
qed

text \<open>
  The order of the three deletions is needed: on a store with an entry of an author and
  likes of that entry, the store refuses to delete the authors first, or the entries
  first.
\<close>

lemma destroy_in_another_order_fails:
  "fst (Autor_destroy_all example_store) = Inl ForeignKeyConstraintError
   \<and> autores (snd (Autor_destroy_all example_store)) = autores example_store
   \<and> fst (Antologia_destroy_all example_store) = Inl ForeignKeyConstraintError
   \<and> antologias (snd (Antologia_destroy_all example_store)) = antologias example_store"
  by (simp add: Autor_destroy_all_def Antologia_destroy_all_def referenced_def example_defs
      logged_def)

text \<open>
  Claim C6.  From any store, \<open>POST /database/reset\<close> deletes every Like (\<open>Like.destroy\<close>
  returns their number and leaves that table empty, the others as they were), then, on
  the store this leaves, every Antologia, then every Autor, then runs
  \<open>initializeDatabase\<close> on the three empty tables, and answers 200.  Afterwards the store
  holds the seed author with id 1, the seed entry with id 1 that refers to it, and no
  like; \<open>GET /autores\<close> lists exactly that author and \<open>GET /antologia\<close> exactly that
  entry, with \<open>likesCount\<close> 0.
\<close>

theorem reset_leaves_exactly_the_seeds:
  "\<exists>s1 s2 s3 s' a e.
       Like_destroy_all s = (Inr (length (likes s)), s1)
     \<and> likes s1 = [] \<and> antologias s1 = antologias s \<and> autores s1 = autores s
     \<and> Antologia_destroy_all s1 = (Inr (length (antologias s)), s2)
     \<and> likes s2 = [] \<and> antologias s2 = [] \<and> autores s2 = autores s
     \<and> Autor_destroy_all s2 = (Inr (length (autores s)), s3)
     \<and> likes s3 = [] \<and> antologias s3 = [] \<and> autores s3 = []
     \<and> initializeDatabase s3 = (Inr True, s')
     \<and> post_database_reset s =
         (\<lparr>status = 200, body = MessageJson ''Base de datos reinicializada exitosamente''\<rparr>, s')
     \<and> calls s' = calls s @ [DestroyAll Like, DestroyAll Antologia, DestroyAll Autor, Sync_force,
          Count Autor, Create Autor, Count Antologia, FindOne Autor, Create Antologia]
     \<and> autores s' = [a] \<and> antologias s' = [e] \<and> likes s' = []
     \<and> idautor a = 1 \<and> autor_row seed_autor = Some (\<lambda>k. a\<lparr>idautor := k\<rparr>)
     \<and> antologia_id e = 1
     \<and> antologia_row (seed_antologia (idautor a)) = Some (\<lambda>k. e\<lparr>antologia_id := k\<rparr>)
     \<and> fst (get_autores s') = \<lparr>status = 200, body = AutoresJson [a]\<rparr>
     \<and> fst (get_antologia s') =
         \<lparr>status = 200,
          body = AntologiasJson
            [\<lparr>entry = e,
              included_Autor =
                Some \<lparr>p_nombre = nombre a, p_biografia = biografia a, p_urlfoto = urlfoto a\<rparr>,
              likesCount = 0\<rparr>]\<rparr>"
  by (simp add: post_database_reset_def initializeDatabase_def seed_defaults_def orm_defs
      create_defs key_defs seed_autor_def seed_antologia_def js_autor_def js_number_1
      get_autores_def get_antologia_def view_of_def include_Autor_def likes_of_def)

section \<open>Seeding\<close>

text \<open>
  \<open>initializeDatabase\<close> with \<open>sync({force: true})\<close>, run on a store that holds an author,
  two entries and three likes, replaces them by the seeds and makes both \<open>create\<close> calls.
\<close>

theorem initialize_inserts_nothing_counterexample:
  "autores example_store \<noteq> [] \<and> antologias example_store \<noteq> []
   \<and> autores (snd (initializeDatabase example_store)) \<noteq> autores example_store
   \<and> antologias (snd (initializeDatabase example_store)) \<noteq> antologias example_store
   \<and> likes (snd (initializeDatabase example_store)) = []
   \<and> Create Autor \<in> set (calls (snd (initializeDatabase example_store)))
   \<and> Create Antologia \<in> set (calls (snd (initializeDatabase example_store)))"
  by (simp add: initializeDatabase_def seed_defaults_def orm_defs create_defs key_defs
      seed_autor_def seed_antologia_def js_autor_def js_number_1 example_defs)

text \<open>
  Claim C7, amended.  The seeding is guarded by the two counts: on a store with at least
  one Autor and at least one Antologia it only counts.  So \<open>initializeDatabase\<close> with
  \<open>sync({alter: true})\<close> makes no insert on such a store and leaves the rows of every
  table as they were, whether the synchronisation succeeds (then the two counts follow)
  or fails on a row that is referred to (then the error is swallowed and nothing
  follows).  \<open>initializeDatabase\<close> with \<open>sync({force: true})\<close> drops the tables first:
  from any store it makes both inserts and ends with exactly the seed author and the seed
  entry, both with id 1.
\<close>

theorem seeding_is_guarded_by_the_counts:
  "(autores s \<noteq> [] \<and> antologias s \<noteq> [] \<longrightarrow>
      seed_defaults s = (Inr True, s\<lparr>calls := calls s @ [Count Autor, Count Antologia]\<rparr>)
      \<and> autores (snd (initializeDatabase_alter s)) = autores s
      \<and> antologias (snd (initializeDatabase_alter s)) = antologias s
      \<and> likes (snd (initializeDatabase_alter s)) = likes s
      \<and> calls (snd (initializeDatabase_alter s)) =
          calls s @ (if fst (sync_alter s) = Inr ()
                     then [Sync_alter, Count Autor, Count Antologia] else [Sync_alter]))
   \<and> (\<exists>a e s'. initializeDatabase s = (Inr True, s')
        \<and> calls s' = calls s @ [Sync_force, Count Autor, Create Autor, Count Antologia,
             FindOne Autor, Create Antologia]
        \<and> autores s' = [a] \<and> antologias s' = [e] \<and> likes s' = []
        \<and> idautor a = 1 \<and> autor_row seed_autor = Some (\<lambda>k. a\<lparr>idautor := k\<rparr>)
        \<and> antologia_id e = 1
        \<and> antologia_row (seed_antologia 1) = Some (\<lambda>k. e\<lparr>antologia_id := k\<rparr>))"
proof -
  have p: "autores s \<noteq> [] \<and> antologias s \<noteq> [] \<longrightarrow>
      seed_defaults s = (Inr True, s\<lparr>calls := calls s @ [Count Autor, Count Antologia]\<rparr>)
      \<and> autores (snd (initializeDatabase_alter s)) = autores s
      \<and> antologias (snd (initializeDatabase_alter s)) = antologias s
      \<and> likes (snd (initializeDatabase_alter s)) = likes s
      \<and> calls (snd (initializeDatabase_alter s)) =
          calls s @ (if fst (sync_alter s) = Inr ()
                     then [Sync_alter, Count Autor, Count Antologia] else [Sync_alter])"
    by (simp add: initializeDatabase_alter_def seed_defaults_def orm_defs)
  have q: "\<exists>a e s'. initializeDatabase s = (Inr True, s')
        \<and> calls s' = calls s @ [Sync_force, Count Autor, Create Autor, Count Antologia,
             FindOne Autor, Create Antologia]
        \<and> autores s' = [a] \<and> antologias s' = [e] \<and> likes s' = []
        \<and> idautor a = 1 \<and> autor_row seed_autor = Some (\<lambda>k. a\<lparr>idautor := k\<rparr>)
        \<and> antologia_id e = 1
        \<and> antologia_row (seed_antologia 1) = Some (\<lambda>k. e\<lparr>antologia_id := k\<rparr>)"
    by (simp add: initializeDatabase_def seed_defaults_def orm_defs create_defs key_defs
        seed_autor_def seed_antologia_def js_autor_def js_number_1)
  from p q show ?thesis by blast
qed

theorem seeding_is_guarded_by_the_counts_witness:
  "autores example_store \<noteq> [] \<and> antologias example_store \<noteq> []
   \<and> fst (sync_alter example_store) = Inl ForeignKeyConstraintError
   \<and> autores (snd (initializeDatabase_alter example_store)) = [ana]
   \<and> antologias (snd (initializeDatabase_alter example_store)) = [first_entry, second_entry]
   \<and> calls (snd (initializeDatabase_alter example_store)) = [Sync_alter]
   \<and> autores loose_store \<noteq> [] \<and> antologias loose_store \<noteq> []
   \<and> fst (sync_alter loose_store) = Inr ()
   \<and> autores (snd (initializeDatabase_alter loose_store)) = [ana]
   \<and> antologias (snd (initializeDatabase_alter loose_store)) = [second_entry]
   \<and> calls (snd (initializeDatabase_alter loose_store)) =
       [Sync_alter, Count Autor, Count Antologia]"
proof -
  have e: "autores example_store = [ana]"
    "antologias example_store = [first_entry, second_entry]" "calls example_store = []"
    "fst (sync_alter example_store) = Inl ForeignKeyConstraintError"
    by (simp_all add: sync_alter_def referenced_def example_defs)
  have l: "autores loose_store = [ana]" "antologias loose_store = [second_entry]"
    "calls loose_store = []" "fst (sync_alter loose_store) = Inr ()"
    by (simp_all add: sync_alter_def referenced_def example_defs)
  from seeding_is_guarded_by_the_counts [of example_store]
    seeding_is_guarded_by_the_counts [of loose_store] e l
  show ?thesis by simp
qed

section \<open>Targets that do not exist\<close>

text \<open>
  Claim C8.  When no row has the id of the route, \<open>PUT /autores/:id\<close>,
  \<open>PUT /antologia/:id\<close> and \<open>DELETE /antologia/:id\<close> each answer 500 with an \<open>{error}\<close>
  body and leave the table as it was: a count of zero updated or deleted rows is thrown
  as \<open>Author not found\<close> or \<open>Anthology not found\<close>, never answered with 200.  (A body that
  sets a required column to \<open>null\<close> is refused by validation before the update runs; the
  answer is a 500 \<open>{error}\<close> then as well.)
\<close>

theorem missing_target_is_reported:
  "(p \<notin> idautor ` set (autores s) \<longrightarrow>
      fst (put_autores p c s) =
        \<lparr>status = 500,
         body = ErrorJson
           (if c_nombre c = Null
            then ValidationError ''notNull Violation: Autor.nombre cannot be null''
            else Error ''Author not found'')\<rparr>
      \<and> autores (snd (put_autores p c s)) = autores s)
   \<and> (q \<notin> antologia_id ` set (antologias s) \<longrightarrow>
      fst (put_antologia q d s) =
        \<lparr>status = 500,
         body = ErrorJson
           (if c_titulo d = Null
            then ValidationError ''notNull Violation: Antologia.titulo cannot be null''
            else Error ''Anthology not found'')\<rparr>
      \<and> antologias (snd (put_antologia q d s)) = antologias s)
   \<and> (q \<notin> antologia_id ` set (antologias s) \<longrightarrow>
      fst (delete_antologia q s) =
        \<lparr>status = 500, body = ErrorJson (Error ''Anthology not found'')\<rparr>
      \<and> antologias (snd (delete_antologia q s)) = antologias s)"
proof -
  have f1: "p \<notin> idautor ` set (autores s) \<Longrightarrow> filter (\<lambda>a. idautor a = p) (autores s) = []"
    by (auto simp: filter_empty_conv)
  have m1: "p \<notin> idautor ` set (autores s) \<Longrightarrow>
      map (\<lambda>a. if idautor a = p then autor_apply c a else a) (autores s) = autores s"
    by (rule map_idI) auto
  have f2: "q \<notin> antologia_id ` set (antologias s) \<Longrightarrow>
      filter (\<lambda>e. antologia_id e = q) (antologias s) = []"
    by (auto simp: filter_empty_conv)
  have f3: "q \<notin> antologia_id ` set (antologias s) \<Longrightarrow>
      filter (\<lambda>e. antologia_id e \<noteq> q) (antologias s) = antologias s"
    by (auto simp: filter_id_conv)
  have m2: "q \<notin> antologia_id ` set (antologias s) \<Longrightarrow>
      map (\<lambda>e. if antologia_id e = q then antologia_apply d e else e) (antologias s)
        = antologias s"
    by (rule map_idI) auto
  have none: "\<not> referenced [] refs" for refs
    by (induction refs) (auto simp: referenced_def split: option.splits)
  have p1: "p \<notin> idautor ` set (autores s) \<longrightarrow>
      fst (put_autores p c s) =
        \<lparr>status = 500,
         body = ErrorJson
           (if c_nombre c = Null
            then ValidationError ''notNull Violation: Autor.nombre cannot be null''
            else Error ''Author not found'')\<rparr>
      \<and> autores (snd (put_autores p c s)) = autores s"
    by (auto simp: put_autores_def Autor_update_def server_error_def logged_def f1 m1)
  have p2: "q \<notin> antologia_id ` set (antologias s) \<longrightarrow>
      fst (put_antologia q d s) =
        \<lparr>status = 500,
         body = ErrorJson
           (if c_titulo d = Null
            then ValidationError ''notNull Violation: Antologia.titulo cannot be null''
            else Error ''Anthology not found'')\<rparr>
      \<and> antologias (snd (put_antologia q d s)) = antologias s"
    by (auto simp: put_antologia_def Antologia_update_def server_error_def logged_def f2 m2)
  have p3: "q \<notin> antologia_id ` set (antologias s) \<longrightarrow>
      fst (delete_antologia q s) =
        \<lparr>status = 500, body = ErrorJson (Error ''Anthology not found'')\<rparr>
      \<and> antologias (snd (delete_antologia q s)) = antologias s"
    by (auto simp: delete_antologia_def Antologia_destroy_where_def server_error_def
        logged_def f2 f3 none)
  from p1 p2 p3 show ?thesis by blast
qed

theorem missing_target_is_reported_witness:
  "9 \<notin> idautor ` set (autores example_store)
   \<and> fst (put_autores 9 no_changes_autor example_store) =
       \<lparr>status = 500, body = ErrorJson (Error ''Author not found'')\<rparr>
   \<and> 9 \<notin> antologia_id ` set (antologias example_store)
   \<and> fst (put_antologia 9 no_changes_antologia example_store) =
       \<lparr>status = 500, body = ErrorJson (Error ''Anthology not found'')\<rparr>
   \<and> fst (delete_antologia 9 example_store) =
       \<lparr>status = 500, body = ErrorJson (Error ''Anthology not found'')\<rparr>
   \<and> antologias (snd (delete_antologia 9 example_store)) = antologias example_store"
  using missing_target_is_reported
    [of 9 example_store no_changes_autor 9 no_changes_antologia]
  by (simp add: example_defs)

section \<open>Creating an author\<close>

text \<open>
  \<open>POST /autores\<close> with the empty string as \<open>nombre\<close> creates the author: \<open>allowNull:
  false\<close> refuses \<open>null\<close> and a missing property, not an empty string.  And in a store
  whose author has the key \<open>2 ^ 53\<close>, the author created next is stored under
  \<open>2 ^ 53 + 1\<close> and returned with the id \<open>2 ^ 53\<close>, the id of the other author.
\<close>

theorem empty_name_is_refused_counterexample:
  "v_nombre nameless = Val []
   \<and> fst (post_autores nameless empty_store) =
      \<lparr>status = 201,
       body = AutorJson \<lparr>idautor = 1, nombre = [], biografia = None, urlfoto = None\<rparr>\<rparr>
   \<and> autores (snd (post_autores nameless empty_store)) =
      [\<lparr>idautor = 1, nombre = [], biografia = None, urlfoto = None\<rparr>]
   \<and> v_nombre eva = Val ''Eva'' \<and> v_idautor eva = Absent
   \<and> fst (post_autores eva large_store) =
      \<lparr>status = 201,
       body = AutorJson \<lparr>idautor = 9007199254740992, nombre = ''Eva'', biografia = None,
                urlfoto = None\<rparr>\<rparr>
   \<and> 9007199254740992 \<in> idautor ` set (autores large_store)"
  by (simp add: post_autores_def create_defs key_defs js_defs example_defs logged_def)

text \<open>
  Claim C9, amended.  \<open>POST /autores\<close> without \<open>nombre\<close>, or with \<open>nombre\<close> \<open>null\<close>,
  answers 500 with the validation error and creates no author.  With a \<open>nombre\<close>, the
  empty string included, and no \<open>idautor\<close> of the client's own, and as long as the next
  key of the table is at most \<open>2 ^ 53\<close>, it answers 201 with the new author, whose id the
  store assigns: it is the id of no author in the store and is greater than the table's
  counter, so than every id the table has held since it was created.
\<close>

theorem post_autores_needs_a_name_and_assigns_a_fresh_id:
  "(field_option (v_nombre v) = None \<longrightarrow>
      fst (post_autores v s) =
        \<lparr>status = 500,
         body = ErrorJson (ValidationError ''notNull Violation: Autor.nombre cannot be null'')\<rparr>
      \<and> autores (snd (post_autores v s)) = autores s)
   \<and> (v_nombre v = Val n \<and> field_option (v_idautor v) = None
       \<and> \<bar>next_id (autor_seq s) (map idautor (autores s))\<bar> \<le> 2 ^ 53 \<longrightarrow>
      (\<exists>a. fst (post_autores v s) = \<lparr>status = 201, body = AutorJson a\<rparr>
         \<and> nombre a = n
         \<and> idautor a \<notin> idautor ` set (autores s)
         \<and> autor_seq s < idautor a
         \<and> autores (snd (post_autores v s)) = autores s @ [a]
         \<and> autor_seq (snd (post_autores v s)) = idautor a))"
proof -
  let ?k = "next_id (autor_seq s) (map idautor (autores s))"
  have fresh: "?k \<notin> idautor ` set (autores s)"
    using next_id_fresh [of "autor_seq s" "map idautor (autores s)"] by simp
  have above: "autor_seq s < ?k"
    by (rule next_id_above)
  have p1: "field_option (v_nombre v) = None \<longrightarrow>
      fst (post_autores v s) =
        \<lparr>status = 500,
         body = ErrorJson (ValidationError ''notNull Violation: Autor.nombre cannot be null'')\<rparr>
      \<and> autores (snd (post_autores v s)) = autores s"
    by (simp add: post_autores_def Autor_create_def create_row_def autor_row_def
        server_error_def logged_def)
  have p2: "\<exists>a. fst (post_autores v s) = \<lparr>status = 201, body = AutorJson a\<rparr>
         \<and> nombre a = n
         \<and> idautor a \<notin> idautor ` set (autores s)
         \<and> autor_seq s < idautor a
         \<and> autores (snd (post_autores v s)) = autores s @ [a]
         \<and> autor_seq (snd (post_autores v s)) = idautor a"
    if h: "v_nombre v = Val n" "field_option (v_idautor v) = None" "\<bar>?k\<bar> \<le> 2 ^ 53"
  proof -
    have js: "js_number ?k = ?k" using h(3) by (rule js_number_safe)
    have range: "\<not> max_rowid < ?k" using safe_in_range [OF h(3)] by simp
    have key: "insert_key None (map idautor (autores s)) (autor_seq s) = Fresh ?k"
      using range by (simp add: insert_key_def)
    show ?thesis
      using h(1,2) fresh above key js
      by (simp add: post_autores_def Autor_create_def create_row_def autor_row_def
          insert_row_def logged_def max_def)
  qed
  from p1 p2 show ?thesis by blast
qed

theorem post_autores_needs_a_name_and_assigns_a_fresh_id_witness:
  "field_option (v_nombre (eva\<lparr>v_nombre := Null\<rparr>)) = None
   \<and> status (fst (post_autores (eva\<lparr>v_nombre := Null\<rparr>) example_store)) = 500
   \<and> autores (snd (post_autores (eva\<lparr>v_nombre := Null\<rparr>) example_store)) = [ana]
   \<and> v_nombre eva = Val ''Eva'' \<and> field_option (v_idautor eva) = None
   \<and> \<bar>next_id (autor_seq example_store) (map idautor (autores example_store))\<bar> \<le> 2 ^ 53
   \<and> (\<exists>a. fst (post_autores eva example_store) = \<lparr>status = 201, body = AutorJson a\<rparr>
        \<and> nombre a = ''Eva'' \<and> idautor a \<notin> idautor ` set (autores example_store)
        \<and> autores (snd (post_autores eva example_store)) = [ana, a])"
proof -
  have h1: "field_option (v_nombre (eva\<lparr>v_nombre := Null\<rparr>)) = None" by simp
  have h2: "v_nombre eva = Val ''Eva'' \<and> field_option (v_idautor eva) = None"
    by (simp add: eva_def)
  have h3: "\<bar>next_id (autor_seq example_store) (map idautor (autores example_store))\<bar>
      \<le> 2 ^ 53"
    by (simp add: next_id_def example_defs)
  have r: "autores example_store = [ana]" by (simp add: example_store_def)
  from post_autores_needs_a_name_and_assigns_a_fresh_id
      [where v = "eva\<lparr>v_nombre := Null\<rparr>" and s = example_store] h1 r
  have w1: "status (fst (post_autores (eva\<lparr>v_nombre := Null\<rparr>) example_store)) = 500
     \<and> autores (snd (post_autores (eva\<lparr>v_nombre := Null\<rparr>) example_store)) = [ana]"
    by simp
  from post_autores_needs_a_name_and_assigns_a_fresh_id
      [where v = eva and s = example_store and n = "''Eva''"] h2 h3 r
  have w2: "\<exists>a. fst (post_autores eva example_store) = \<lparr>status = 201, body = AutorJson a\<rparr>
        \<and> nombre a = ''Eva'' \<and> idautor a \<notin> idautor ` set (autores example_store)
        \<and> autores (snd (post_autores eva example_store)) = [ana, a]"
    by auto
  show ?thesis using h1 h2 h3 w1 w2 by blast
qed

section \<open>Deleting an entry\<close>

text \<open>
  Claim C10.  A \<open>DELETE /antologia/:id\<close> of an id of the store that answers 200 has made
  the single call \<open>Antologia.destroy\<close> for that id and has removed the Antologia rows of
  that id and nothing else: every Like row and every Autor row is what it was, and no
  Like row refers to the deleted id.  The delete of an id of the store succeeds when no
  Like row refers to it; when one does, the store refuses, the answer is 500 and no row
  of any table is deleted.
\<close>

theorem delete_antologia_keeps_likes_and_autores:
  "(p \<in> antologia_id ` set (antologias s)
      \<and> fst (delete_antologia p s) =
          \<lparr>status = 200, body = MessageJson ''Anthology deleted successfully''\<rparr> \<longrightarrow>
        antologias (snd (delete_antologia p s)) =
          filter (\<lambda>e. antologia_id e \<noteq> p) (antologias s)
      \<and> likes (snd (delete_antologia p s)) = likes s
      \<and> autores (snd (delete_antologia p s)) = autores s
      \<and> calls (snd (delete_antologia p s)) = calls s @ [DestroyWhere Antologia p]
      \<and> (\<forall>l \<in> set (likes s). idantologia l \<noteq> Some p))
   \<and> (p \<in> antologia_id ` set (antologias s) \<and> (\<forall>l \<in> set (likes s). idantologia l \<noteq> Some p)
        \<longrightarrow>
        fst (delete_antologia p s) =
          \<lparr>status = 200, body = MessageJson ''Anthology deleted successfully''\<rparr>)
   \<and> (p \<in> antologia_id ` set (antologias s) \<and> (\<exists>l \<in> set (likes s). idantologia l = Some p)
        \<longrightarrow>
        fst (delete_antologia p s) = \<lparr>status = 500, body = ErrorJson ForeignKeyConstraintError\<rparr>
      \<and> antologias (snd (delete_antologia p s)) = antologias s
      \<and> likes (snd (delete_antologia p s)) = likes s
      \<and> autores (snd (delete_antologia p s)) = autores s)"
proof -
  let ?doomed = "filter (\<lambda>e. antologia_id e = p) (antologias s)"
  have ref: "p \<in> antologia_id ` set (antologias s) \<Longrightarrow>
      referenced (map antologia_id ?doomed) (map idantologia (likes s))
        \<longleftrightarrow> (\<exists>l \<in> set (likes s). idantologia l = Some p)"
  proof -
    assume p: "p \<in> antologia_id ` set (antologias s)"
    then have ids: "set (map antologia_id ?doomed) = {p}" by auto
    have "Some p \<in> set (map idantologia (likes s))
        \<longleftrightarrow> (\<exists>l \<in> set (likes s). idantologia l = Some p)"
      by (simp add: image_iff) (metis (full_types))
    then show ?thesis unfolding referenced_iff ids by simp
  qed
  have ne: "p \<in> antologia_id ` set (antologias s) \<Longrightarrow> ?doomed \<noteq> []"
    by (auto simp: filter_empty_conv)
  have ok: "p \<in> antologia_id ` set (antologias s) \<Longrightarrow>
      \<forall>l \<in> set (likes s). idantologia l \<noteq> Some p \<Longrightarrow>
      delete_antologia p s =
        (\<lparr>status = 200, body = MessageJson ''Anthology deleted successfully''\<rparr>,
         s\<lparr>antologias := filter (\<lambda>e. antologia_id e \<noteq> p) (antologias s),
           calls := calls s @ [DestroyWhere Antologia p]\<rparr>)"
    using ref ne by (simp add: delete_antologia_def Antologia_destroy_where_def ok_def logged_def)
  have ko: "p \<in> antologia_id ` set (antologias s) \<Longrightarrow>
      \<exists>l \<in> set (likes s). idantologia l = Some p \<Longrightarrow>
      delete_antologia p s =
        (\<lparr>status = 500, body = ErrorJson ForeignKeyConstraintError\<rparr>,
         s\<lparr>calls := calls s @ [DestroyWhere Antologia p]\<rparr>)"
    using ref by (simp add: delete_antologia_def Antologia_destroy_where_def server_error_def
        logged_def)
  have p1: "p \<in> antologia_id ` set (antologias s)
      \<and> fst (delete_antologia p s) =
          \<lparr>status = 200, body = MessageJson ''Anthology deleted successfully''\<rparr> \<longrightarrow>
        antologias (snd (delete_antologia p s)) =
          filter (\<lambda>e. antologia_id e \<noteq> p) (antologias s)
      \<and> likes (snd (delete_antologia p s)) = likes s
      \<and> autores (snd (delete_antologia p s)) = autores s
      \<and> calls (snd (delete_antologia p s)) = calls s @ [DestroyWhere Antologia p]
      \<and> (\<forall>l \<in> set (likes s). idantologia l \<noteq> Some p)"
  proof (intro impI, elim conjE)
    assume p: "p \<in> antologia_id ` set (antologias s)"
      and success: "fst (delete_antologia p s) =
          \<lparr>status = 200, body = MessageJson ''Anthology deleted successfully''\<rparr>"
    have none: "\<forall>l \<in> set (likes s). idantologia l \<noteq> Some p"
    proof (rule ccontr)
      assume "\<not> (\<forall>l \<in> set (likes s). idantologia l \<noteq> Some p)"
      then have "\<exists>l \<in> set (likes s). idantologia l = Some p" by blast
      from ko [OF p this] success show False by simp
    qed
    from ok [OF p none] none
    show "antologias (snd (delete_antologia p s)) =
          filter (\<lambda>e. antologia_id e \<noteq> p) (antologias s)
      \<and> likes (snd (delete_antologia p s)) = likes s
      \<and> autores (snd (delete_antologia p s)) = autores s
      \<and> calls (snd (delete_antologia p s)) = calls s @ [DestroyWhere Antologia p]
      \<and> (\<forall>l \<in> set (likes s). idantologia l \<noteq> Some p)"
      by simp
  qed
  have p2: "p \<in> antologia_id ` set (antologias s)
        \<and> (\<forall>l \<in> set (likes s). idantologia l \<noteq> Some p) \<longrightarrow>
        fst (delete_antologia p s) =
          \<lparr>status = 200, body = MessageJson ''Anthology deleted successfully''\<rparr>"
    using ok by simp
  have p3: "p \<in> antologia_id ` set (antologias s)
        \<and> (\<exists>l \<in> set (likes s). idantologia l = Some p) \<longrightarrow>
        fst (delete_antologia p s) = \<lparr>status = 500, body = ErrorJson ForeignKeyConstraintError\<rparr>
      \<and> antologias (snd (delete_antologia p s)) = antologias s
      \<and> likes (snd (delete_antologia p s)) = likes s
      \<and> autores (snd (delete_antologia p s)) = autores s"
    using ko by simp
  from p1 p2 p3 show ?thesis by blast
qed

theorem delete_antologia_keeps_likes_and_autores_witness:
  "2 \<in> antologia_id ` set (antologias example_store)
   \<and> fst (delete_antologia 2 example_store) =
       \<lparr>status = 200, body = MessageJson ''Anthology deleted successfully''\<rparr>
   \<and> antologias (snd (delete_antologia 2 example_store)) = [first_entry]
   \<and> likes (snd (delete_antologia 2 example_store)) =
       [like_of 1 (Some 1), like_of 2 (Some 1), like_of 3 None]
   \<and> autores (snd (delete_antologia 2 example_store)) = [ana]
   \<and> 1 \<in> antologia_id ` set (antologias example_store)
   \<and> (\<exists>l \<in> set (likes example_store). idantologia l = Some 1)
   \<and> fst (delete_antologia 1 example_store) =
       \<lparr>status = 500, body = ErrorJson ForeignKeyConstraintError\<rparr>
   \<and> antologias (snd (delete_antologia 1 example_store)) = [first_entry, second_entry]"
proof -
  have h2: "2 \<in> antologia_id ` set (antologias example_store)"
    "\<forall>l \<in> set (likes example_store). idantologia l \<noteq> Some 2"
    by (simp_all add: example_defs)
  have h1: "1 \<in> antologia_id ` set (antologias example_store)"
    "\<exists>l \<in> set (likes example_store). idantologia l = Some 1"
    by (simp_all add: example_defs)
  have r: "antologias example_store = [first_entry, second_entry]"
    "likes example_store = [like_of 1 (Some 1), like_of 2 (Some 1), like_of 3 None]"
    "autores example_store = [ana]"
    "antologia_id first_entry = 1" "antologia_id second_entry = 2"
    by (simp_all add: example_defs)
  from delete_antologia_keeps_likes_and_autores [of 2 example_store] h2
  have s2: "fst (delete_antologia 2 example_store) =
       \<lparr>status = 200, body = MessageJson ''Anthology deleted successfully''\<rparr>"
    by simp
  with delete_antologia_keeps_likes_and_autores [of 2 example_store] h2 r
  have w2: "antologias (snd (delete_antologia 2 example_store)) = [first_entry]
     \<and> likes (snd (delete_antologia 2 example_store)) =
         [like_of 1 (Some 1), like_of 2 (Some 1), like_of 3 None]
     \<and> autores (snd (delete_antologia 2 example_store)) = [ana]"
    by simp
  have t1: "1 \<in> antologia_id ` set (antologias example_store)
      \<and> (\<exists>l \<in> set (likes example_store). idantologia l = Some 1)"
    using h1 by blast
  from delete_antologia_keeps_likes_and_autores [of 1 example_store] t1
  have w1: "fst (delete_antologia 1 example_store) =
       \<lparr>status = 500, body = ErrorJson ForeignKeyConstraintError\<rparr>
     \<and> antologias (snd (delete_antologia 1 example_store)) = antologias example_store"
    by blast
  show ?thesis using h1 h2 s2 w2 w1 r(1) by simp
qed

end
